theory Spec2Isabelle
  imports Complex_Main "HOL-Library.Word"
begin

section \<open>The numbers of the program\<close>

text \<open>
  \<^verbatim>\<open>render.cc\<close> computes with \<^verbatim>\<open>double\<close>, \<^verbatim>\<open>int\<close> and \<^verbatim>\<open>unsigned\<close>. The
  arithmetic on \<^verbatim>\<open>double\<close> is a parameter of the model: a record of the operations
  the source uses, over a carrier \<open>'d\<close>. Every function below takes it as its first
  argument, so a theorem stated for an arbitrary \<open>ar\<close> holds for the rounding arithmetic
  of the machine as well as for exact arithmetic.

  \<^item> \<open>fadd\<close>, \<open>fsub\<close>, \<open>fmul\<close>, \<open>fdiv\<close>: the operators \<^verbatim>\<open>+ - * /\<close> on \<^verbatim>\<open>double\<close>;
  \<^item> \<open>fpow x n\<close>: the call \<^verbatim>\<open>pow(x, n)\<close> (the source only passes the literals 2 to 6);
  \<^item> \<open>lit q\<close>: the \<^verbatim>\<open>double\<close> a decimal literal such as \<^verbatim>\<open>0.472\<close> denotes;
  \<^item> \<open>of_int32\<close>, \<open>of_uint32\<close>: the implicit conversions \<^verbatim>\<open>int\<close> to \<^verbatim>\<open>double\<close>
    (\<^verbatim>\<open>width\<close>, \<^verbatim>\<open>255\<close>, \<^verbatim>\<open>243\<close>) and \<^verbatim>\<open>unsigned\<close> to \<^verbatim>\<open>double\<close> (\<^verbatim>\<open>i\<close>, \<^verbatim>\<open>j\<close>);
  \<^item> \<open>to_int32\<close>: the conversion \<^verbatim>\<open>int(v)\<close>. An \<^verbatim>\<open>int\<close> is a 32-bit word, read
    with \<open>sint\<close>. The language fixes the result only where the truncated value fits an
    \<^verbatim>\<open>int\<close>; what the conversion yields elsewhere belongs to the arithmetic, and the
    model assumes that it yields some word.
\<close>

type_synonym int32 = "32 word"

record 'd arith =
  fadd :: "'d \<Rightarrow> 'd \<Rightarrow> 'd"
  fsub :: "'d \<Rightarrow> 'd \<Rightarrow> 'd"
  fmul :: "'d \<Rightarrow> 'd \<Rightarrow> 'd"
  fdiv :: "'d \<Rightarrow> 'd \<Rightarrow> 'd"
  fpow :: "'d \<Rightarrow> nat \<Rightarrow> 'd"
  lit :: "rat \<Rightarrow> 'd"
  of_int32 :: "int \<Rightarrow> 'd"
  of_uint32 :: "nat \<Rightarrow> 'd"
  to_int32 :: "'d \<Rightarrow> int32"

text \<open>
  Modelled from the spec: the type \<^verbatim>\<open>complex\<close>, declared in \<^verbatim>\<open>types.hh\<close>, which is
  not among the sources. A complex point is a pair of real-valued coordinates (real,
  imaginary); \<^verbatim>\<open>complex(x, y)\<close> builds one, \<^verbatim>\<open>real()\<close> and \<^verbatim>\<open>imag()\<close> read it, and
  \<^verbatim>\<open>+\<close> adds the coordinates.
\<close>

datatype 'd complexd = Cplx (creal: 'd) (cimag: 'd)

definition cadd :: "'d arith \<Rightarrow> 'd complexd \<Rightarrow> 'd complexd \<Rightarrow> 'd complexd" where
  "cadd ar x y = Cplx (fadd ar (creal x) (creal y)) (fadd ar (cimag x) (cimag y))"

text \<open>
  Two arithmetics follow. The first is exact arithmetic on the reals: no rounding, no
  infinities. \<open>trunc0\<close> is the truncation toward zero that \<^verbatim>\<open>int(v)\<close> performs where
  its result fits an \<^verbatim>\<open>int\<close>; \<open>ub\<close> is what the conversion yields where it does not.
  Division is the division of the reals, so a statement about \<open>exact\<close> describes the
  program only where the divisor is not zero.
\<close>

definition trunc0 :: "real \<Rightarrow> int" where
  "trunc0 v = (if 0 \<le> v then \<lfloor>v\<rfloor> else \<lceil>v\<rceil>)"

definition in_int32 :: "int \<Rightarrow> bool" where
  "in_int32 k \<longleftrightarrow> - (2 ^ 31) \<le> k \<and> k < 2 ^ 31"

definition exact :: "(real \<Rightarrow> int32) \<Rightarrow> real arith" where
  "exact ub =
     \<lparr> fadd = (\<lambda>x y. x + y), fsub = (\<lambda>x y. x - y), fmul = (\<lambda>x y. x * y),
       fdiv = (\<lambda>x y. x / y), fpow = (\<lambda>x n. x ^ n), lit = of_rat,
       of_int32 = of_int, of_uint32 = of_nat,
       to_int32 = (\<lambda>v. if in_int32 (trunc0 v) then word_of_int (trunc0 v) else ub v) \<rparr>"

text \<open>The value \<^verbatim>\<open>0x80000000\<close> that the x86 conversion instruction yields out of range.\<close>

definition indefinite :: "real \<Rightarrow> int32" where
  "indefinite v = - (2 ^ 31)"

text \<open>
  The second is the arithmetic of the machine: IEEE 754 binary64 with rounding to
  nearest, ties to even, on the finite values. Every operation returns the exact result
  rounded to 53 significant bits, each operation on its own (no fused multiply-add):
  \<open>expo x\<close> is the binary exponent of \<open>x\<close> (not below \<open>-1022\<close>, where the subnormal
  numbers begin), \<open>2 powi (expo x - 52)\<close> is the spacing of the doubles around \<open>x\<close>, and
  \<open>rnd53 x\<close> is the multiple of that spacing nearest to \<open>x\<close>. A decimal literal is
  rounded once, \<^verbatim>\<open>pow\<close> is taken to round correctly, and the conversions from
  \<^verbatim>\<open>int\<close> and \<^verbatim>\<open>unsigned\<close> are exact. There are no infinities, no NaNs and no negative
  zero here: \<open>binary64\<close> describes the machine where no operation overflows or divides
  by zero.
  A real number \<open>x\<close> is a double when \<open>rnd53 x = x\<close>.
\<close>

definition round_even :: "real \<Rightarrow> int" where
  "round_even y =
     (let n = \<lfloor>y\<rfloor>; d = y - of_int n
      in if d < 1 / 2 then n else if 1 / 2 < d then n + 1 else if even n then n else n + 1)"

definition expo :: "real \<Rightarrow> int" where
  "expo x = max \<lfloor>log 2 \<bar>x\<bar>\<rfloor> (- 1022)"

definition rnd53 :: "real \<Rightarrow> real" where
  "rnd53 x =
     (if x = 0 then 0
      else of_int (round_even (x * 2 powi (52 - expo x))) * 2 powi (expo x - 52))"

definition binary64 :: "(real \<Rightarrow> int32) \<Rightarrow> real arith" where
  "binary64 ub =
     \<lparr> fadd = (\<lambda>x y. rnd53 (x + y)), fsub = (\<lambda>x y. rnd53 (x - y)),
       fmul = (\<lambda>x y. rnd53 (x * y)), fdiv = (\<lambda>x y. rnd53 (x / y)),
       fpow = (\<lambda>x n. rnd53 (x ^ n)), lit = (\<lambda>q. rnd53 (of_rat q)),
       of_int32 = of_int, of_uint32 = of_nat,
       to_int32 = (\<lambda>v. if in_int32 (trunc0 v) then word_of_int (trunc0 v) else ub v) \<rparr>"

section \<open>The colour map\<close>

text \<open>
  \<^verbatim>\<open>struct Colour { int r, g, b; }\<close>. The selectors carry a prefix, since \<open>b\<close> is
  also the name of a corner point.
\<close>

datatype Colour = Colour (col_r: int32) (col_g: int32) (col_b: int32)

text \<open>
  \<^verbatim>\<open>colour_map\<close>, operator by operator: \<^verbatim>\<open>+\<close> and \<^verbatim>\<open>-\<close> associate to the left,
  \<^verbatim>\<open>*\<close> binds tighter.
\<close>

definition colour_map :: "'d arith \<Rightarrow> 'd \<Rightarrow> Colour" where
  "colour_map ar x =
     (let r = fdiv ar
                (fadd ar (fsub ar (lit ar 0.472) (fmul ar (lit ar 0.567) x))
                         (fmul ar (lit ar 4.05) (fpow ar x 2)))
                (fadd ar (fsub ar (fadd ar (lit ar 1) (fmul ar (lit ar 8.72) x))
                                  (fmul ar (lit ar 19.17) (fpow ar x 2)))
                         (fmul ar (lit ar 14.1) (fpow ar x 3)));
          g = fadd ar (fsub ar (fadd ar (fsub ar (fadd ar (fsub ar (lit ar 0.108932)
                (fmul ar (lit ar 1.22635) x))
                (fmul ar (lit ar 27.284) (fpow ar x 2)))
                (fmul ar (lit ar 98.577) (fpow ar x 3)))
                (fmul ar (lit ar 163.3) (fpow ar x 4)))
                (fmul ar (lit ar 131.395) (fpow ar x 5)))
                (fmul ar (lit ar 40.634) (fpow ar x 6));
          b = fdiv ar (lit ar 1)
                (fadd ar (fsub ar (fadd ar (fsub ar (fadd ar (lit ar 1.97)
                  (fmul ar (lit ar 3.54) x))
                  (fmul ar (lit ar 68.5) (fpow ar x 2)))
                  (fmul ar (of_int32 ar 243) (fpow ar x 3)))
                  (fmul ar (of_int32 ar 297) (fpow ar x 4)))
                  (fmul ar (of_int32 ar 125) (fpow ar x 5)))
      in Colour (to_int32 ar (fmul ar r (of_int32 ar 255)))
                (to_int32 ar (fmul ar g (of_int32 ar 255)))
                (to_int32 ar (fmul ar b (of_int32 ar 255))))"

text \<open>The three channel formulas as the specification writes them, over the reals.\<close>

definition r_den :: "real \<Rightarrow> real" where
  "r_den x = 1 + 8.72 * x - 19.17 * x\<^sup>2 + 14.1 * x ^ 3"

definition b_den :: "real \<Rightarrow> real" where
  "b_den x = 1.97 + 3.54 * x - 68.5 * x\<^sup>2 + 243 * x ^ 3 - 297 * x ^ 4 + 125 * x ^ 5"

definition r_spec :: "real \<Rightarrow> real" where
  "r_spec x = (0.472 - 0.567 * x + 4.05 * x\<^sup>2) / r_den x"

definition g_spec :: "real \<Rightarrow> real" where
  "g_spec x = 0.108932 - 1.22635 * x + 27.284 * x\<^sup>2 - 98.577 * x ^ 3 + 163.3 * x ^ 4
               - 131.395 * x ^ 5 + 40.634 * x ^ 6"

definition b_spec :: "real \<Rightarrow> real" where
  "b_spec x = 1 / b_den x"

text \<open>
  The same three formulas read in an arithmetic \<open>ar\<close>, with \<open>x\<^sup>n\<close> as \<^verbatim>\<open>pow\<close>, and
  the scaling by 255. \<open>truncating ar\<close> is the rule of the language for \<^verbatim>\<open>int(v)\<close>:
  wherever the value truncated toward zero fits an \<^verbatim>\<open>int\<close>, the conversion yields it.
\<close>

definition r_formula :: "'d arith \<Rightarrow> 'd \<Rightarrow> 'd" where
  "r_formula ar x =
     fdiv ar
       (fadd ar (fsub ar (lit ar 0.472) (fmul ar (lit ar 0.567) x))
                (fmul ar (lit ar 4.05) (fpow ar x 2)))
       (fadd ar (fsub ar (fadd ar (lit ar 1) (fmul ar (lit ar 8.72) x))
                         (fmul ar (lit ar 19.17) (fpow ar x 2)))
                (fmul ar (lit ar 14.1) (fpow ar x 3)))"

definition g_formula :: "'d arith \<Rightarrow> 'd \<Rightarrow> 'd" where
  "g_formula ar x =
     fadd ar (fsub ar (fadd ar (fsub ar (fadd ar (fsub ar (lit ar 0.108932)
       (fmul ar (lit ar 1.22635) x))
       (fmul ar (lit ar 27.284) (fpow ar x 2)))
       (fmul ar (lit ar 98.577) (fpow ar x 3)))
       (fmul ar (lit ar 163.3) (fpow ar x 4)))
       (fmul ar (lit ar 131.395) (fpow ar x 5)))
       (fmul ar (lit ar 40.634) (fpow ar x 6))"

definition b_formula :: "'d arith \<Rightarrow> 'd \<Rightarrow> 'd" where
  "b_formula ar x =
     fdiv ar (lit ar 1)
       (fadd ar (fsub ar (fadd ar (fsub ar (fadd ar (lit ar 1.97)
         (fmul ar (lit ar 3.54) x))
         (fmul ar (lit ar 68.5) (fpow ar x 2)))
         (fmul ar (of_int32 ar 243) (fpow ar x 3)))
         (fmul ar (of_int32 ar 297) (fpow ar x 4)))
         (fmul ar (of_int32 ar 125) (fpow ar x 5)))"

definition scaled :: "'d arith \<Rightarrow> 'd \<Rightarrow> 'd" where
  "scaled ar v = fmul ar v (of_int32 ar 255)"

definition truncating :: "real arith \<Rightarrow> bool" where
  "truncating ar \<longleftrightarrow> (\<forall>v. in_int32 (trunc0 v) \<longrightarrow> sint (to_int32 ar v) = trunc0 v)"

text \<open>
  A double in the unit interval, \<^verbatim>\<open>0x1.0916f08fd6ec2p-9\<close>, at which the red channel lies
  just below 118 and its computed value just above.
\<close>

definition near_118 :: real where
  "near_118 = 2331752852797281 / 2 ^ 60"

section \<open>The output stream and the caller's functions\<close>

text \<open>
  \<^verbatim>\<open>std::cout\<close> is the string of the characters written so far; \<^verbatim>\<open><<\<close> appends
  to it, and \<^verbatim>\<open>std::endl\<close> appends a newline (its flush changes no character).
  \<^verbatim>\<open><<\<close> on an \<^verbatim>\<open>int\<close> writes its decimal digits, with a minus sign before a negative
  value.
\<close>

definition newline :: char where
  "newline = CHR 0x0A"

definition esc :: char where
  "esc = CHR 0x1B"

definition digit_char :: "nat \<Rightarrow> char" where
  "digit_char n = ''0123456789'' ! n"

function show_nat :: "nat \<Rightarrow> string" where
  "show_nat n = (if n < 10 then [digit_char n] else show_nat (n div 10) @ [digit_char (n mod 10)])"
  by pat_completeness auto
termination
  by (relation "measure (\<lambda>n. n)") auto

declare show_nat.simps [simp del]

definition show_int :: "int \<Rightarrow> string" where
  "show_int k = (if k < 0 then CHR ''-'' # show_nat (nat (- k)) else show_nat (nat k))"

text \<open>
  Modelled from the spec: the types \<^verbatim>\<open>predicate\<close> and \<^verbatim>\<open>unit_map\<close>, declared in
  \<^verbatim>\<open>types.hh\<close> as well. A predicate maps a complex point to a boolean, a scalar
  function maps it to a real number, and both are supplied by the caller. A callable
  may keep state of its own from one call to the next, so the model threads a state
  \<open>'s\<close> through the calls: this is what makes the number and the order of the calls
  observable. The callable does not write to the output stream and always returns.
\<close>

type_synonym ('d, 's) predicate = "'d complexd \<Rightarrow> 's \<Rightarrow> bool \<times> 's"
type_synonym ('d, 's) unit_map = "'d complexd \<Rightarrow> 's \<Rightarrow> 'd \<times> 's"

text \<open>A callable without state, and one that records the points it is called with.\<close>

definition pure_fn :: "('c \<Rightarrow> 'r) \<Rightarrow> 'c \<Rightarrow> 's \<Rightarrow> 'r \<times> 's" where
  "pure_fn p c s = (p c, s)"

definition logged :: "('c \<Rightarrow> 'r) \<Rightarrow> 'c \<Rightarrow> 'c list \<Rightarrow> 'r \<times> 'c list" where
  "logged p c seen = (p c, seen @ [c])"

section \<open>The predicate renderer\<close>

text \<open>
  \<^verbatim>\<open>int width = 80, height = 24\<close>. The loop counters are \<^verbatim>\<open>unsigned\<close> and stay below
  80, so they are natural numbers here; the comparison \<^verbatim>\<open>i < width\<close> converts the
  positive \<^verbatim>\<open>width\<close> to \<^verbatim>\<open>unsigned\<close>.
\<close>

definition width :: int where
  "width = 80"

definition height :: int where
  "height = 24"

text \<open>The inner loop of \<^verbatim>\<open>render\<close>, from column \<open>i\<close> on, in row \<open>j\<close>.\<close>

function render_cols ::
  "'d arith \<Rightarrow> ('d, 's) predicate \<Rightarrow> 'd complexd \<Rightarrow> 'd \<Rightarrow> 'd \<Rightarrow> nat \<Rightarrow> nat \<Rightarrow>
     's \<times> string \<Rightarrow> 's \<times> string" where
  "render_cols ar pred a scale_real scale_imag j i (s, out) =
     (if i < nat width then
        (let c = cadd ar a (Cplx (fmul ar (of_uint32 ar i) scale_real)
                                 (fmul ar (of_uint32 ar j) scale_imag));
             (t, s') = pred c s
         in render_cols ar pred a scale_real scale_imag j (Suc i)
              (s', out @ (if t then ''#'' else '' '')))
      else (s, out))"
  by pat_completeness auto
termination
  by (relation "measure (\<lambda>(ar, pred, a, scale_real, scale_imag, j, i, st). nat width - i)") auto

declare render_cols.simps [simp del]

text \<open>The outer loop, from row \<open>j\<close> on.\<close>

function render_rows ::
  "'d arith \<Rightarrow> ('d, 's) predicate \<Rightarrow> 'd complexd \<Rightarrow> 'd \<Rightarrow> 'd \<Rightarrow> nat \<Rightarrow>
     's \<times> string \<Rightarrow> 's \<times> string" where
  "render_rows ar pred a scale_real scale_imag j (s, out) =
     (if j < nat height then
        (let (s', out') = render_cols ar pred a scale_real scale_imag j 0 (s, out)
         in render_rows ar pred a scale_real scale_imag (Suc j) (s', out' @ [newline]))
      else (s, out))"
  by pat_completeness auto
termination
  by (relation "measure (\<lambda>(ar, pred, a, scale_real, scale_imag, j, st). nat height - j)") auto

declare render_rows.simps [simp del]

definition render ::
  "'d arith \<Rightarrow> ('d, 's) predicate \<Rightarrow> 'd complexd \<Rightarrow> 'd complexd \<Rightarrow>
     's \<times> string \<Rightarrow> 's \<times> string" where
  "render ar pred a b st =
     (let scale_real = fdiv ar (fsub ar (creal b) (creal a)) (of_int32 ar width);
          scale_imag = fdiv ar (fsub ar (cimag b) (cimag a)) (of_int32 ar height)
      in render_rows ar pred a scale_real scale_imag 0 st)"

section \<open>The gradient renderer\<close>

function render_colour_cols ::
  "'d arith \<Rightarrow> ('d, 's) unit_map \<Rightarrow> 'd complexd \<Rightarrow> 'd \<Rightarrow> 'd \<Rightarrow> nat \<Rightarrow> nat \<Rightarrow>
     's \<times> string \<Rightarrow> 's \<times> string" where
  "render_colour_cols ar f a scale_real scale_imag j i (s, out) =
     (if i < nat width then
        (let c = cadd ar a (Cplx (fmul ar (of_uint32 ar i) scale_real)
                                 (fmul ar (of_uint32 ar j) scale_imag));
             (v, s') = f c s;
             colour = colour_map ar v
         in render_colour_cols ar f a scale_real scale_imag j (Suc i)
              (s', out @ esc # ''[38;2;'' @ show_int (sint (col_r colour)) @ '';''
                       @ show_int (sint (col_g colour)) @ '';''
                       @ show_int (sint (col_b colour)) @ ''m#''))
      else (s, out))"
  by pat_completeness auto
termination
  by (relation "measure (\<lambda>(ar, f, a, scale_real, scale_imag, j, i, st). nat width - i)") auto

declare render_colour_cols.simps [simp del]

function render_colour_rows ::
  "'d arith \<Rightarrow> ('d, 's) unit_map \<Rightarrow> 'd complexd \<Rightarrow> 'd \<Rightarrow> 'd \<Rightarrow> nat \<Rightarrow>
     's \<times> string \<Rightarrow> 's \<times> string" where
  "render_colour_rows ar f a scale_real scale_imag j (s, out) =
     (if j < nat height then
        (let (s', out') = render_colour_cols ar f a scale_real scale_imag j 0 (s, out)
         in render_colour_rows ar f a scale_real scale_imag (Suc j) (s', out' @ [newline]))
      else (s, out))"
  by pat_completeness auto
termination
  by (relation "measure (\<lambda>(ar, f, a, scale_real, scale_imag, j, st). nat height - j)") auto

declare render_colour_rows.simps [simp del]

definition render_colour ::
  "'d arith \<Rightarrow> ('d, 's) unit_map \<Rightarrow> 'd complexd \<Rightarrow> 'd complexd \<Rightarrow>
     's \<times> string \<Rightarrow> 's \<times> string" where
  "render_colour ar f a b st =
     (let scale_real = fdiv ar (fsub ar (creal b) (creal a)) (of_int32 ar width);
          scale_imag = fdiv ar (fsub ar (cimag b) (cimag a)) (of_int32 ar height);
          (s, out) = render_colour_rows ar f a scale_real scale_imag 0 st
      in (s, out @ esc # ''[m''))"

section \<open>Observing the renderers\<close>

text \<open>
  The definitions of this section are not code of the program: they name what the
  claims talk about. \<open>sample\<close> is the expression that both inner loops assign to
  \<^verbatim>\<open>c\<close>, for given scale factors; \<open>grid_point\<close> is the sample point of cell
  \<open>(i, j)\<close> as the specification writes it, \<open>A + (i * (B.re - A.re) / 80,
  j * (B.im - A.im) / 24)\<close>, read in the arithmetic \<open>ar\<close> with the division done first;
  \<open>cells\<close> lists the cells as pairs \<open>(j, i)\<close> in row-major order.
\<close>

definition sample :: "'d arith \<Rightarrow> 'd complexd \<Rightarrow> 'd \<Rightarrow> 'd \<Rightarrow> nat \<Rightarrow> nat \<Rightarrow> 'd complexd" where
  "sample ar a scale_real scale_imag i j =
     cadd ar a (Cplx (fmul ar (of_uint32 ar i) scale_real) (fmul ar (of_uint32 ar j) scale_imag))"

definition grid_point :: "'d arith \<Rightarrow> 'd complexd \<Rightarrow> 'd complexd \<Rightarrow> nat \<Rightarrow> nat \<Rightarrow> 'd complexd" where
  "grid_point ar a b i j =
     cadd ar a
       (Cplx (fmul ar (of_uint32 ar i) (fdiv ar (fsub ar (creal b) (creal a)) (of_int32 ar 80)))
             (fmul ar (of_uint32 ar j) (fdiv ar (fsub ar (cimag b) (cimag a)) (of_int32 ar 24))))"

definition cells :: "(nat \<times> nat) list" where
  "cells = List.product [0..<24] [0..<80]"

text \<open>
  The values a callable returns, and the state it ends in, when it is called at the
  points of a list in turn.
\<close>

fun calls :: "('c \<Rightarrow> 's \<Rightarrow> 'r \<times> 's) \<Rightarrow> 's \<Rightarrow> 'c list \<Rightarrow> 'r list \<times> 's" where
  "calls f s [] = ([], s)"
| "calls f s (c # cs) = (let (v, s') = f c s; (vs, s'') = calls f s' cs in (v # vs, s''))"

text \<open>The character of a cell, and a well-formed row of the predicate renderer.\<close>

definition cell_char :: "bool \<Rightarrow> char" where
  "cell_char t = (if t then CHR ''#'' else CHR '' '')"

definition row_ok :: "string \<Rightarrow> bool" where
  "row_ok row \<longleftrightarrow> length row = nat width \<and> set row \<subseteq> {CHR ''#'', CHR '' ''}"

text \<open>
  The lines of an output: the stretches of characters between newlines. Characters
  after the last newline would count as one more line.
\<close>

fun lines_acc :: "string \<Rightarrow> string \<Rightarrow> string list" where
  "lines_acc cur [] = (if cur = [] then [] else [cur])"
| "lines_acc cur (c # cs) =
     (if c = newline then cur # lines_acc [] cs else lines_acc (cur @ [c]) cs)"

definition lines_of :: "string \<Rightarrow> string list" where
  "lines_of out = lines_acc [] out"

text \<open>
  What the gradient renderer writes for one cell: the escape sequence
  \<^verbatim>\<open>ESC[38;2;R;G;Bm\<close> with the three channels in decimal, then \<open>#\<close>.
\<close>

definition colour_cell :: "Colour \<Rightarrow> string" where
  "colour_cell colour =
     esc # ''[38;2;'' @ show_int (sint (col_r colour)) @ '';'' @ show_int (sint (col_g colour))
       @ '';'' @ show_int (sint (col_b colour)) @ ''m#''"

text \<open>The character in column \<open>i\<close> of line \<open>j\<close> of an output.\<close>

definition char_at :: "string \<Rightarrow> nat \<Rightarrow> nat \<Rightarrow> char" where
  "char_at out i j = lines_of out ! j ! i"

text \<open>Predicates for the examples: the points left of the line \<open>re = 1/2\<close>.\<close>

definition left_half :: "real complexd \<Rightarrow> bool" where
  "left_half c \<longleftrightarrow> creal c < 1 / 2"

text \<open>The points left of the line \<open>re = t\<close>.\<close>

definition left_of :: "real \<Rightarrow> real complexd \<Rightarrow> bool" where
  "left_of t c \<longleftrightarrow> creal c < t"

text \<open>
  The double next above \<open>39/40\<close>, \<^verbatim>\<open>0x1.f333333333334p-1\<close>; the double nearest to
  \<open>39/40\<close> is the one below it.
\<close>

definition above_39_40 :: real where
  "above_39_40 = 2195504818343117 / 2251799813685248"

section \<open>Rounding to binary64\<close>

text \<open>Once the binary exponent of a value is known, its rounding is a computation.\<close>

lemma expo_eq:
  assumes "2 powi e \<le> \<bar>x\<bar>" and "\<bar>x\<bar> < 2 powi (e + 1)" and "- 1022 \<le> e"
  shows "expo x = e"
proof -
  have "0 < (2::real) powi e"
    by (rule zero_less_power_int) simp
  then have pos: "0 < \<bar>x\<bar>"
    using assms(1) by linarith
  have lo: "2 powr (real_of_int e) = 2 powi e"
    by (rule powr_real_of_int') simp_all
  have hi: "2 powr (real_of_int (e + 1)) = 2 powi (e + 1)"
    by (rule powr_real_of_int') simp_all
  have iff: "\<lfloor>log 2 \<bar>x\<bar>\<rfloor> = e \<longleftrightarrow>
      2 powr (real_of_int e) \<le> \<bar>x\<bar> \<and> \<bar>x\<bar> < 2 powr (real_of_int (e + 1))"
    using pos by (intro floor_log_eq_powr_iff) simp_all
  have "\<lfloor>log 2 \<bar>x\<bar>\<rfloor> = e"
    unfolding iff lo hi using assms(1,2) by blast
  with assms(3) show ?thesis
    by (simp add: expo_def)
qed

lemma rnd53_eval:
  assumes "2 powi e \<le> \<bar>x\<bar>" and "\<bar>x\<bar> < 2 powi (e + 1)" and "- 1022 \<le> e"
  shows "rnd53 x = of_int (round_even (x * 2 powi (52 - e))) * 2 powi (e - 52)"
proof -
  have "0 < (2::real) powi e"
    by (rule zero_less_power_int) simp
  with assms(1) have "0 < \<bar>x\<bar>"
    by linarith
  then have "x \<noteq> 0"
    by simp
  then show ?thesis
    by (simp add: rnd53_def expo_eq [OF assms])
qed

lemma rnd53_zero [simp]: "rnd53 0 = 0"
  by (simp add: rnd53_def)

text \<open>
  The roundings that occur when \<^verbatim>\<open>colour_map\<close> runs at 0, at \<open>-1\<close>, at 100 and at
  \<open>near_118\<close> and when the sample points of the examples below are computed, each with
  its exponent.
\<close>

lemmas b64_eval = power_int_def power_one_over round_even_def

named_theorems b64_vals

lemma rnd53_v1 [b64_vals]: "rnd53 (59 / 125) = 1062849512059437 / 2251799813685248"
  by (subst rnd53_eval [where e = "- 2"]) (simp_all add: b64_eval)

lemma rnd53_v2 [b64_vals]: "rnd53 (567 / 1000) = 2553540988719071 / 4503599627370496"
  by (subst rnd53_eval [where e = "- 1"]) (simp_all add: b64_eval)

lemma rnd53_v3 [b64_vals]: "rnd53 (1062849512059437 / 2251799813685248) = 1062849512059437 / 2251799813685248"
  by (subst rnd53_eval [where e = "- 2"]) (simp_all add: b64_eval)

lemma rnd53_v4 [b64_vals]: "rnd53 (81 / 20) = 4559894622712627 / 1125899906842624"
  by (subst rnd53_eval [where e = "2"]) (simp_all add: b64_eval)

lemma rnd53_v5 [b64_vals]: "rnd53 (1) = 1"
  by (subst rnd53_eval [where e = "0"]) (simp_all add: b64_eval)

lemma rnd53_v6 [b64_vals]: "rnd53 (218 / 25) = 4908923593833841 / 562949953421312"
  by (subst rnd53_eval [where e = "3"]) (simp_all add: b64_eval)

lemma rnd53_v7 [b64_vals]: "rnd53 (1917 / 100) = 1348968825885819 / 70368744177664"
  by (subst rnd53_eval [where e = "4"]) (simp_all add: b64_eval)

lemma rnd53_v8 [b64_vals]: "rnd53 (141 / 10) = 7937594343240499 / 562949953421312"
  by (subst rnd53_eval [where e = "3"]) (simp_all add: b64_eval)

lemma rnd53_v9 [b64_vals]: "rnd53 (27233 / 250000) = 3924688916869783 / 36028797018963968"
  by (subst rnd53_eval [where e = "- 4"]) (simp_all add: b64_eval)

lemma rnd53_v10 [b64_vals]: "rnd53 (24527 / 20000) = 345186837689113 / 281474976710656"
  by (subst rnd53_eval [where e = "0"]) (simp_all add: b64_eval)

lemma rnd53_v11 [b64_vals]: "rnd53 (3924688916869783 / 36028797018963968) = 3924688916869783 / 36028797018963968"
  by (subst rnd53_eval [where e = "- 4"]) (simp_all add: b64_eval)

lemma rnd53_v12 [b64_vals]: "rnd53 (6821 / 250) = 3839881632286769 / 140737488355328"
  by (subst rnd53_eval [where e = "4"]) (simp_all add: b64_eval)

lemma rnd53_v13 [b64_vals]: "rnd53 (98577 / 1000) = 433546230925099 / 4398046511104"
  by (subst rnd53_eval [where e = "6"]) (simp_all add: b64_eval)

lemma rnd53_v14 [b64_vals]: "rnd53 (1633 / 10) = 2872803981053133 / 17592186044416"
  by (subst rnd53_eval [where e = "7"]) (simp_all add: b64_eval)

lemma rnd53_v15 [b64_vals]: "rnd53 (26279 / 200) = 4623050570612081 / 35184372088832"
  by (subst rnd53_eval [where e = "7"]) (simp_all add: b64_eval)

lemma rnd53_v16 [b64_vals]: "rnd53 (20317 / 500) = 2859363550915199 / 70368744177664"
  by (subst rnd53_eval [where e = "5"]) (simp_all add: b64_eval)

lemma rnd53_v17 [b64_vals]: "rnd53 (197 / 100) = 8872091265919877 / 4503599627370496"
  by (subst rnd53_eval [where e = "0"]) (simp_all add: b64_eval)

lemma rnd53_v18 [b64_vals]: "rnd53 (177 / 50) = 3985685670222889 / 1125899906842624"
  by (subst rnd53_eval [where e = "1"]) (simp_all add: b64_eval)

lemma rnd53_v19 [b64_vals]: "rnd53 (8872091265919877 / 4503599627370496) = 8872091265919877 / 4503599627370496"
  by (subst rnd53_eval [where e = "0"]) (simp_all add: b64_eval)

lemma rnd53_v20 [b64_vals]: "rnd53 (137 / 2) = 137 / 2"
  by (subst rnd53_eval [where e = "6"]) (simp_all add: b64_eval)

lemma rnd53_v21 [b64_vals]: "rnd53 (4503599627370496 / 8872091265919877) = 2286091181406343 / 4503599627370496"
  by (subst rnd53_eval [where e = "- 1"]) (simp_all add: b64_eval)

lemma rnd53_v22 [b64_vals]: "rnd53 (271026625575156435 / 2251799813685248) = 8469582049223639 / 70368744177664"
  by (subst rnd53_eval [where e = "6"]) (simp_all add: b64_eval)

lemma rnd53_v23 [b64_vals]: "rnd53 (1000795673801794665 / 36028797018963968) = 7818716201576521 / 281474976710656"
  by (subst rnd53_eval [where e = "4"]) (simp_all add: b64_eval)

lemma rnd53_v24 [b64_vals]: "rnd53 (582953251258617465 / 4503599627370496) = 4554322275457949 / 35184372088832"
  by (subst rnd53_eval [where e = "7"]) (simp_all add: b64_eval)

lemma rnd53_v25 [b64_vals]: "rnd53 (- (2553540988719071 / 4503599627370496)) = - (2553540988719071 / 4503599627370496)"
  by (subst rnd53_eval [where e = "- 1"]) (simp_all add: b64_eval)

lemma rnd53_v26 [b64_vals]: "rnd53 (4679240012837945 / 4503599627370496) = 4679240012837945 / 4503599627370496"
  by (subst rnd53_eval [where e = "0"]) (simp_all add: b64_eval)

lemma rnd53_v27 [b64_vals]: "rnd53 (4559894622712627 / 1125899906842624) = 4559894622712627 / 1125899906842624"
  by (subst rnd53_eval [where e = "2"]) (simp_all add: b64_eval)

lemma rnd53_v28 [b64_vals]: "rnd53 (22918818503688453 / 4503599627370496) = 5729704625922113 / 1125899906842624"
  by (subst rnd53_eval [where e = "2"]) (simp_all add: b64_eval)

lemma rnd53_v29 [b64_vals]: "rnd53 (- (4908923593833841 / 562949953421312)) = - (4908923593833841 / 562949953421312)"
  by (subst rnd53_eval [where e = "3"]) (simp_all add: b64_eval)

lemma rnd53_v30 [b64_vals]: "rnd53 (- (4345973640412529 / 562949953421312)) = - (4345973640412529 / 562949953421312)"
  by (subst rnd53_eval [where e = "2"]) (simp_all add: b64_eval)

lemma rnd53_v31 [b64_vals]: "rnd53 (1348968825885819 / 70368744177664) = 1348968825885819 / 70368744177664"
  by (subst rnd53_eval [where e = "4"]) (simp_all add: b64_eval)

lemma rnd53_v32 [b64_vals]: "rnd53 (- (15137724247499081 / 562949953421312)) = - (1892215530937385 / 70368744177664)"
  by (subst rnd53_eval [where e = "4"]) (simp_all add: b64_eval)

lemma rnd53_v33 [b64_vals]: "rnd53 (- 1) = - 1"
  by (subst rnd53_eval [where e = "0"]) (simp_all add: b64_eval)

lemma rnd53_v34 [b64_vals]: "rnd53 (- (7937594343240499 / 562949953421312)) = - (7937594343240499 / 562949953421312)"
  by (subst rnd53_eval [where e = "3"]) (simp_all add: b64_eval)

lemma rnd53_v35 [b64_vals]: "rnd53 (- (23075318590739579 / 562949953421312)) = - (5768829647684895 / 140737488355328)"
  by (subst rnd53_eval [where e = "5"]) (simp_all add: b64_eval)

lemma rnd53_v36 [b64_vals]: "rnd53 (- (5729704625922113 / 46150637181479160)) = - (8946111150500493 / 72057594037927936)"
  by (subst rnd53_eval [where e = "- 4"]) (simp_all add: b64_eval)

lemma rnd53_v37 [b64_vals]: "rnd53 (- (345186837689113 / 281474976710656)) = - (345186837689113 / 281474976710656)"
  by (subst rnd53_eval [where e = "0"]) (simp_all add: b64_eval)

lemma rnd53_v38 [b64_vals]: "rnd53 (48108604141076247 / 36028797018963968) = 6013575517634531 / 4503599627370496"
  by (subst rnd53_eval [where e = "0"]) (simp_all add: b64_eval)

lemma rnd53_v39 [b64_vals]: "rnd53 (3839881632286769 / 140737488355328) = 3839881632286769 / 140737488355328"
  by (subst rnd53_eval [where e = "4"]) (simp_all add: b64_eval)

lemma rnd53_v40 [b64_vals]: "rnd53 (128889787750811139 / 4503599627370496) = 251737866700803 / 8796093022208"
  by (subst rnd53_eval [where e = "4"]) (simp_all add: b64_eval)

lemma rnd53_v41 [b64_vals]: "rnd53 (- (433546230925099 / 4398046511104)) = - (433546230925099 / 4398046511104)"
  by (subst rnd53_eval [where e = "6"]) (simp_all add: b64_eval)

lemma rnd53_v42 [b64_vals]: "rnd53 (1118830328551001 / 8796093022208) = 1118830328551001 / 8796093022208"
  by (subst rnd53_eval [where e = "6"]) (simp_all add: b64_eval)

lemma rnd53_v43 [b64_vals]: "rnd53 (2872803981053133 / 17592186044416) = 2872803981053133 / 17592186044416"
  by (subst rnd53_eval [where e = "7"]) (simp_all add: b64_eval)

lemma rnd53_v44 [b64_vals]: "rnd53 (5110464638155135 / 17592186044416) = 5110464638155135 / 17592186044416"
  by (subst rnd53_eval [where e = "8"]) (simp_all add: b64_eval)

lemma rnd53_v45 [b64_vals]: "rnd53 (- (4623050570612081 / 35184372088832)) = - (4623050570612081 / 35184372088832)"
  by (subst rnd53_eval [where e = "7"]) (simp_all add: b64_eval)

lemma rnd53_v46 [b64_vals]: "rnd53 (14843979846922351 / 35184372088832) = 927748740432647 / 2199023255552"
  by (subst rnd53_eval [where e = "8"]) (simp_all add: b64_eval)

lemma rnd53_v47 [b64_vals]: "rnd53 (2859363550915199 / 70368744177664) = 2859363550915199 / 70368744177664"
  by (subst rnd53_eval [where e = "5"]) (simp_all add: b64_eval)

lemma rnd53_v48 [b64_vals]: "rnd53 (32547323244759903 / 70368744177664) = 1017103851398747 / 2199023255552"
  by (subst rnd53_eval [where e = "8"]) (simp_all add: b64_eval)

lemma rnd53_v49 [b64_vals]: "rnd53 (- (3985685670222889 / 1125899906842624)) = - (3985685670222889 / 1125899906842624)"
  by (subst rnd53_eval [where e = "1"]) (simp_all add: b64_eval)

lemma rnd53_v50 [b64_vals]: "rnd53 (- (7070651414971679 / 4503599627370496)) = - (7070651414971679 / 4503599627370496)"
  by (subst rnd53_eval [where e = "0"]) (simp_all add: b64_eval)

lemma rnd53_v51 [b64_vals]: "rnd53 (- (315567225889850655 / 4503599627370496)) = - (1232684476132229 / 17592186044416)"
  by (subst rnd53_eval [where e = "6"]) (simp_all add: b64_eval)

lemma rnd53_v52 [b64_vals]: "rnd53 (- 243) = - 243"
  by (subst rnd53_eval [where e = "7"]) (simp_all add: b64_eval)

lemma rnd53_v53 [b64_vals]: "rnd53 (- (5507585684925317 / 17592186044416)) = - (5507585684925317 / 17592186044416)"
  by (subst rnd53_eval [where e = "8"]) (simp_all add: b64_eval)

lemma rnd53_v54 [b64_vals]: "rnd53 (297) = 297"
  by (subst rnd53_eval [where e = "8"]) (simp_all add: b64_eval)

lemma rnd53_v55 [b64_vals]: "rnd53 (- (10732464940116869 / 17592186044416)) = - (2683116235029217 / 4398046511104)"
  by (subst rnd53_eval [where e = "9"]) (simp_all add: b64_eval)

lemma rnd53_v56 [b64_vals]: "rnd53 (- 125) = - 125"
  by (subst rnd53_eval [where e = "6"]) (simp_all add: b64_eval)

lemma rnd53_v57 [b64_vals]: "rnd53 (- (3232872048917217 / 4398046511104)) = - (3232872048917217 / 4398046511104)"
  by (subst rnd53_eval [where e = "9"]) (simp_all add: b64_eval)

lemma rnd53_v58 [b64_vals]: "rnd53 (- (4398046511104 / 3232872048917217)) = - (3136902620449337 / 2305843009213693952)"
  by (subst rnd53_eval [where e = "- 10"]) (simp_all add: b64_eval)

lemma rnd53_v59 [b64_vals]: "rnd53 (- (2281258343377625715 / 72057594037927936)) = - (4455582701909425 / 140737488355328)"
  by (subst rnd53_eval [where e = "4"]) (simp_all add: b64_eval)

lemma rnd53_v60 [b64_vals]: "rnd53 (259361482106680485 / 2199023255552) = 8105046315833765 / 68719476736"
  by (subst rnd53_eval [where e = "16"]) (simp_all add: b64_eval)

lemma rnd53_v61 [b64_vals]: "rnd53 (- (799910168214580935 / 2305843009213693952)) = - (3124649094588207 / 9007199254740992)"
  by (subst rnd53_eval [where e = "- 2"]) (simp_all add: b64_eval)

lemma rnd53_v62 [b64_vals]: "rnd53 (63838524717976775 / 1125899906842624) = 7979815589747097 / 140737488355328"
  by (subst rnd53_eval [where e = "5"]) (simp_all add: b64_eval)

lemma rnd53_v63 [b64_vals]: "rnd53 (- (126614199923894115 / 2251799813685248)) = - (3956693747621691 / 70368744177664)"
  by (subst rnd53_eval [where e = "5"]) (simp_all add: b64_eval)

lemma rnd53_v64 [b64_vals]: "rnd53 (10000) = 10000"
  by (subst rnd53_eval [where e = "13"]) (simp_all add: b64_eval)

lemma rnd53_v65 [b64_vals]: "rnd53 (2849934139195391875 / 70368744177664) = 40500"
  by (subst rnd53_eval [where e = "15"]) (simp_all add: b64_eval)

lemma rnd53_v66 [b64_vals]: "rnd53 (2845977445447770309 / 70368744177664) = 347409356133761 / 8589934592"
  by (subst rnd53_eval [where e = "15"]) (simp_all add: b64_eval)

lemma rnd53_v67 [b64_vals]: "rnd53 (122723089845846025 / 140737488355328) = 7670193115365377 / 8796093022208"
  by (subst rnd53_eval [where e = "9"]) (simp_all add: b64_eval)

lemma rnd53_v68 [b64_vals]: "rnd53 (7678989208387585 / 8796093022208) = 7678989208387585 / 8796093022208"
  by (subst rnd53_eval [where e = "9"]) (simp_all add: b64_eval)

lemma rnd53_v69 [b64_vals]: "rnd53 (843105516178636875 / 4398046511104) = 6586761845145601 / 34359738368"
  by (subst rnd53_eval [where e = "17"]) (simp_all add: b64_eval)

lemma rnd53_v70 [b64_vals]: "rnd53 (- (1678532043148886271 / 8796093022208)) = - (6556765793550337 / 34359738368)"
  by (subst rnd53_eval [where e = "17"]) (simp_all add: b64_eval)

lemma rnd53_v71 [b64_vals]: "rnd53 (1000000) = 1000000"
  by (subst rnd53_eval [where e = "19"]) (simp_all add: b64_eval)

lemma rnd53_v72 [b64_vals]: "rnd53 (124024911613132796875 / 8796093022208) = 14100000"
  by (subst rnd53_eval [where e = "23"]) (simp_all add: b64_eval)

lemma rnd53_v73 [b64_vals]: "rnd53 (477915545195249663 / 34359738368) = 13909173"
  by (subst rnd53_eval [where e = "23"]) (simp_all add: b64_eval)

lemma rnd53_v74 [b64_vals]: "rnd53 (347409356133761 / 119478886298812416) = 6704711267336493 / 2305843009213693952"
  by (subst rnd53_eval [where e = "- 9"]) (simp_all add: b64_eval)

lemma rnd53_v75 [b64_vals]: "rnd53 (8629670942227825 / 70368744177664) = 8629670942227825 / 70368744177664"
  by (subst rnd53_eval [where e = "6"]) (simp_all add: b64_eval)

lemma rnd53_v76 [b64_vals]: "rnd53 (- (4414466833503776617 / 36028797018963968)) = - (1077750691773383 / 8796093022208)"
  by (subst rnd53_eval [where e = "6"]) (simp_all add: b64_eval)

lemma rnd53_v77 [b64_vals]: "rnd53 (2399926020179230625 / 8796093022208) = 272840"
  by (subst rnd53_eval [where e = "18"]) (simp_all add: b64_eval)

lemma rnd53_v78 [b64_vals]: "rnd53 (2398848269487457337 / 8796093022208) = 2342625263171345 / 8589934592"
  by (subst rnd53_eval [where e = "18"]) (simp_all add: b64_eval)

lemma rnd53_v79 [b64_vals]: "rnd53 (6774159858204671875 / 68719476736) = 98577000"
  by (subst rnd53_eval [where e = "26"]) (simp_all add: b64_eval)

lemma rnd53_v80 [b64_vals]: "rnd53 (- (844427357012412655 / 8589934592)) = - (3298544363329737 / 33554432)"
  by (subst rnd53_eval [where e = "26"]) (simp_all add: b64_eval)

lemma rnd53_v81 [b64_vals]: "rnd53 (100000000) = 100000000"
  by (subst rnd53_eval [where e = "26"]) (simp_all add: b64_eval)

lemma rnd53_v82 [b64_vals]: "rnd53 (1122189055098880078125 / 68719476736) = 8561623040000001 / 524288"
  by (subst rnd53_eval [where e = "33"]) (simp_all add: b64_eval)

lemma rnd53_v83 [b64_vals]: "rnd53 (544645330196670327 / 33554432) = 4255041642161487 / 262144"
  by (subst rnd53_eval [where e = "33"]) (simp_all add: b64_eval)

lemma rnd53_v84 [b64_vals]: "rnd53 (10000000000) = 10000000000"
  by (subst rnd53_eval [where e = "33"]) (simp_all add: b64_eval)

lemma rnd53_v85 [b64_vals]: "rnd53 (45146978228633603515625 / 34359738368) = 1313950000000"
  by (subst rnd53_eval [where e = "40"]) (simp_all add: b64_eval)

lemma rnd53_v86 [b64_vals]: "rnd53 (- (340189067157838513 / 262144)) = - (5315454174341227 / 4096)"
  by (subst rnd53_eval [where e = "40"]) (simp_all add: b64_eval)

lemma rnd53_v87 [b64_vals]: "rnd53 (1000000000000) = 1000000000000"
  by (subst rnd53_eval [where e = "39"]) (simp_all add: b64_eval)

lemma rnd53_v88 [b64_vals]: "rnd53 (698086804422656005859375 / 17179869184) = 40634000000000"
  by (subst rnd53_eval [where e = "45"]) (simp_all add: b64_eval)

lemma rnd53_v89 [b64_vals]: "rnd53 (161121409825658773 / 4096) = 5035044057051837 / 128"
  by (subst rnd53_eval [where e = "45"]) (simp_all add: b64_eval)

lemma rnd53_v90 [b64_vals]: "rnd53 (99642141755572225 / 281474976710656) = 354"
  by (subst rnd53_eval [where e = "8"]) (simp_all add: b64_eval)

lemma rnd53_v91 [b64_vals]: "rnd53 (1603146359355075461 / 4503599627370496) = 1565572616557691 / 4398046511104"
  by (subst rnd53_eval [where e = "8"]) (simp_all add: b64_eval)

lemma rnd53_v92 [b64_vals]: "rnd53 (685000) = 685000"
  by (subst rnd53_eval [where e = "19"]) (simp_all add: b64_eval)

lemma rnd53_v93 [b64_vals]: "rnd53 (- (3011096287489682309 / 4398046511104)) = - (2940523718251643 / 4294967296)"
  by (subst rnd53_eval [where e = "19"]) (simp_all add: b64_eval)

lemma rnd53_v94 [b64_vals]: "rnd53 (243000000) = 243000000"
  by (subst rnd53_eval [where e = "27"]) (simp_all add: b64_eval)

lemma rnd53_v95 [b64_vals]: "rnd53 (1040736529209748357 / 4294967296) = 8130754134451159 / 33554432"
  by (subst rnd53_eval [where e = "27"]) (simp_all add: b64_eval)

lemma rnd53_v96 [b64_vals]: "rnd53 (29700000000) = 29700000000"
  by (subst rnd53_eval [where e = "34"]) (simp_all add: b64_eval)

lemma rnd53_v97 [b64_vals]: "rnd53 (- (988435876265548841 / 33554432)) = - (965269410415575 / 32768)"
  by (subst rnd53_eval [where e = "34"]) (simp_all add: b64_eval)

lemma rnd53_v98 [b64_vals]: "rnd53 (1250000000000) = 1250000000000"
  by (subst rnd53_eval [where e = "40"]) (simp_all add: b64_eval)

lemma rnd53_v99 [b64_vals]: "rnd53 (39994730589584425 / 32768) = 4999341323698053 / 4096"
  by (subst rnd53_eval [where e = "40"]) (simp_all add: b64_eval)

lemma rnd53_v100 [b64_vals]: "rnd53 (4096 / 4999341323698053) = 2028508186419307 / 2475880078570760549798248448"
  by (subst rnd53_eval [where e = "- 41"]) (simp_all add: b64_eval)

lemma rnd53_v101 [b64_vals]: "rnd53 (1709701373170805715 / 2305843009213693952) = 1669630247237115 / 2251799813685248"
  by (subst rnd53_eval [where e = "- 1"]) (simp_all add: b64_eval)

lemma rnd53_v102 [b64_vals]: "rnd53 (1283936234548218435 / 128) = 10030751832407956"
  by (subst rnd53_eval [where e = "53"]) (simp_all add: b64_eval)

lemma rnd53_v103 [b64_vals]: "rnd53 (517269587536923285 / 2475880078570760549798248448) = 4041168652632213 / 19342813113834066795298816"
  by (subst rnd53_eval [where e = "- 33"]) (simp_all add: b64_eval)

lemma rnd53_v104 [b64_vals]: "rnd53 (1 / 4503599627370496) = 1 / 4503599627370496"
  by (subst rnd53_eval [where e = "- 52"]) (simp_all add: b64_eval)

lemma rnd53_v105 [b64_vals]: "rnd53 (1 / 360287970189639680) = 3602879701896397 / 1298074214633706907132624082305024"
  by (subst rnd53_eval [where e = "- 59"]) (simp_all add: b64_eval)

lemma rnd53_v106 [b64_vals]: "rnd53 (284627496449815363 / 1298074214633706907132624082305024) = 4447304632028365 / 20282409603651670423947251286016"
  by (subst rnd53_eval [where e = "- 53"]) (simp_all add: b64_eval)

lemma rnd53_v107 [b64_vals]: "rnd53 (20282409603651674871251883314381 / 20282409603651670423947251286016) = 4503599627370497 / 4503599627370496"
  by (subst rnd53_eval [where e = "0"]) (simp_all add: b64_eval)

lemma rnd53_v108 [b64_vals]: "rnd53 (- 80) = - 80"
  by (subst rnd53_eval [where e = "6"]) (simp_all add: b64_eval)

lemma rnd53_v109 [b64_vals]: "rnd53 (- 24) = - 24"
  by (subst rnd53_eval [where e = "4"]) (simp_all add: b64_eval)

lemma rnd53_v110 [b64_vals]: "rnd53 (- 79) = - 79"
  by (subst rnd53_eval [where e = "6"]) (simp_all add: b64_eval)

lemma rnd53_v111 [b64_vals]: "rnd53 (- 23) = - 23"
  by (subst rnd53_eval [where e = "4"]) (simp_all add: b64_eval)

lemma rnd53_v112 [b64_vals]: "rnd53 (80) = 80"
  by (subst rnd53_eval [where e = "6"]) (simp_all add: b64_eval)

lemma rnd53_v113 [b64_vals]: "rnd53 (24) = 24"
  by (subst rnd53_eval [where e = "4"]) (simp_all add: b64_eval)

lemma rnd53_v114 [b64_vals]: "rnd53 (79) = 79"
  by (subst rnd53_eval [where e = "6"]) (simp_all add: b64_eval)

lemma rnd53_v115 [b64_vals]: "rnd53 (23) = 23"
  by (subst rnd53_eval [where e = "4"]) (simp_all add: b64_eval)

lemma rnd53_v116 [b64_vals]: "rnd53 (2) = 2"
  by (subst rnd53_eval [where e = "1"]) (simp_all add: b64_eval)

lemma rnd53_v117 [b64_vals]: "rnd53 (4503599627370497 / 4503599627370496) = 4503599627370497 / 4503599627370496"
  by (subst rnd53_eval [where e = "0"]) (simp_all add: b64_eval)

lemma rnd53_v118 [b64_vals]: "rnd53 (5954226485180483344067421645951 / 5192296858534827628530496329220096) = 5288415470144233 / 4611686018427387904"
  by (subst rnd53_eval [where e = "- 10"]) (simp_all add: b64_eval)

lemma rnd53_v119 [b64_vals]: "rnd53 (2171427385227582743 / 4611686018427387904) = 8482138223545245 / 18014398509481984"
  by (subst rnd53_eval [where e = "- 2"]) (simp_all add: b64_eval)

lemma rnd53_v120 [b64_vals]: "rnd53 (5437071366528258395826480992961 / 1329227995784915872903807060280344576) = 4829089454119869 / 1180591620717411303424"
  by (subst rnd53_eval [where e = "- 18"]) (simp_all add: b64_eval)

lemma rnd53_v121 [b64_vals]: "rnd53 (22020139034439445926865597885863 / 1329227995784915872903807060280344576) = 4889453072296367 / 295147905179352825856"
  by (subst rnd53_eval [where e = "- 16"]) (simp_all add: b64_eval)

lemma rnd53_v122 [b64_vals]: "rnd53 (138976242107637590447 / 295147905179352825856) = 4241218326038745 / 9007199254740992"
  by (subst rnd53_eval [where e = "- 2"]) (simp_all add: b64_eval)

lemma rnd53_v123 [b64_vals]: "rnd53 (11446396594085939877679970586321 / 649037107316853453566312041152512) = 5083221219098073 / 288230376151711744"
  by (subst rnd53_eval [where e = "- 6"]) (simp_all add: b64_eval)

lemma rnd53_v124 [b64_vals]: "rnd53 (293313597370809817 / 288230376151711744) = 4583024958918903 / 4503599627370496"
  by (subst rnd53_eval [where e = "0"]) (simp_all add: b64_eval)

lemma rnd53_v125 [b64_vals]: "rnd53 (6514291131021670285242933237711 / 83076749736557242056487941267521536) = 5785852802217369 / 73786976294838206464"
  by (subst rnd53_eval [where e = "- 14"]) (simp_all add: b64_eval)

lemma rnd53_v126 [b64_vals]: "rnd53 (75082495074125089383 / 73786976294838206464) = 572833977311135 / 562949953421312"
  by (subst rnd53_eval [where e = "0"]) (simp_all add: b64_eval)

lemma rnd53_v127 [b64_vals]: "rnd53 (12677906669764677549238358334543536267320939041 / 1532495540865888858358347027150309183618739122183602176) = 5000552465909033 / 604462909807314587353088"
  by (subst rnd53_eval [where e = "- 27"]) (simp_all add: b64_eval)

lemma rnd53_v128 [b64_vals]: "rnd53 (39692356966476868560898975527467 / 340282366920938463463374607431768211456) = 4406736860582335 / 37778931862957161709568"
  by (subst rnd53_eval [where e = "- 24"]) (simp_all add: b64_eval)

lemma rnd53_v129 [b64_vals]: "rnd53 (38442241884688904982975 / 37778931862957161709568) = 2291336171906525 / 2251799813685248"
  by (subst rnd53_eval [where e = "0"]) (simp_all add: b64_eval)

lemma rnd53_v130 [b64_vals]: "rnd53 (848243665207749 / 1833068937525220) = 8336074604387743 / 18014398509481984"
  by (subst rnd53_eval [where e = "- 2"]) (simp_all add: b64_eval)

lemma rnd53_v131 [b64_vals]: "rnd53 (2125699024118874465 / 18014398509481984) = 8303511812964353 / 70368744177664"
  by (subst rnd53_eval [where e = "6"]) (simp_all add: b64_eval)

lemma rnd53_v132 [b64_vals]: "rnd53 (- (1 / 80)) = - (3602879701896397 / 288230376151711744)"
  by (subst rnd53_eval [where e = "- 7"]) (simp_all add: b64_eval)

lemma rnd53_v133 [b64_vals]: "rnd53 (- (3602879701896397 / 144115188075855872)) = - (3602879701896397 / 144115188075855872)"
  by (subst rnd53_eval [where e = "- 6"]) (simp_all add: b64_eval)

lemma rnd53_v134 [b64_vals]: "rnd53 (140512308373959475 / 144115188075855872) = 8782019273372467 / 9007199254740992"
  by (subst rnd53_eval [where e = "- 1"]) (simp_all add: b64_eval)

lemma rnd53_v135 [b64_vals]: "rnd53 (1 / 80) = 3602879701896397 / 288230376151711744"
  by (subst rnd53_eval [where e = "- 7"]) (simp_all add: b64_eval)

lemma rnd53_v136 [b64_vals]: "rnd53 (140512308373959483 / 144115188075855872) = 2195504818343117 / 2251799813685248"
  by (subst rnd53_eval [where e = "- 1"]) (simp_all add: b64_eval)

lemma rnd53_v137 [b64_vals]: "rnd53 (2195504818343117 / 2251799813685248) = 2195504818343117 / 2251799813685248"
  by (subst rnd53_eval [where e = "- 1"]) (simp_all add: b64_eval)

lemma rnd53_v138 [b64_vals]: "rnd53 (2331752852797281 / 1152921504606846976) = 2331752852797281 / 1152921504606846976"
  by (subst rnd53_eval [where e = "- 9"]) (simp_all add: b64_eval)

lemma binary64_ops:
  "fadd (binary64 ub) x y = rnd53 (x + y)"
  "fsub (binary64 ub) x y = rnd53 (x - y)"
  "fmul (binary64 ub) x y = rnd53 (x * y)"
  "fdiv (binary64 ub) x y = rnd53 (x / y)"
  "fpow (binary64 ub) x n = rnd53 (x ^ n)"
  "lit (binary64 ub) q = rnd53 (of_rat q)"
  "of_int32 (binary64 ub) k = of_int k"
  "of_uint32 (binary64 ub) m = of_nat m"
  "to_int32 (binary64 ub) v = (if in_int32 (trunc0 v) then word_of_int (trunc0 v) else ub v)"
  by (simp_all add: binary64_def)

section \<open>Properties of the colour map\<close>

lemma colour_map_exact:
  "colour_map (exact ub) x =
     Colour (to_int32 (exact ub) (r_spec x * 255))
            (to_int32 (exact ub) (g_spec x * 255))
            (to_int32 (exact ub) (b_spec x * 255))"
  by (simp add: colour_map_def exact_def r_spec_def g_spec_def b_spec_def r_den_def b_den_def
      of_rat_divide)

lemma to_int32_exact:
  "in_int32 (trunc0 v) \<Longrightarrow> to_int32 (exact ub) v = word_of_int (trunc0 v)"
  by (simp add: exact_def)

lemma colour_map_zero_binary64: "colour_map (binary64 ub) 0 = Colour 120 27 129"
  by (simp add: colour_map_def Let_def binary64_ops of_rat_divide b64_vals trunc0_def in_int32_def)

lemma colour_map_neg_binary64: "colour_map (binary64 ub) (- 1) = Colour (- 31) 117943 0"
  by (simp add: colour_map_def Let_def binary64_ops of_rat_divide b64_vals trunc0_def in_int32_def)

lemma colour_map_huge_binary64:
  "colour_map (binary64 indefinite) 100 = Colour 0 (- (2 ^ 31)) 0"
  by (simp add: colour_map_def Let_def binary64_ops of_rat_divide b64_vals trunc0_def in_int32_def
      indefinite_def)

text \<open>
  Claim C3. \<^verbatim>\<open>colour_map(0)\<close> is the triple r = 120, g = 27, b = 129, in the
  arithmetic of the machine and in exact arithmetic alike: the three channel formulas
  at 0, scaled by 255 (120.36, 27.77766 and 129.44...) and truncated toward zero.
\<close>

theorem colour_map_zero:
  "colour_map (binary64 ub) 0 = Colour 120 27 129 \<and>
   colour_map (exact ub) 0 = Colour 120 27 129 \<and>
   trunc0 (r_spec 0 * 255) = 120 \<and> trunc0 (g_spec 0 * 255) = 27 \<and> trunc0 (b_spec 0 * 255) = 129"
  by (simp add: colour_map_zero_binary64 colour_map_exact r_spec_def g_spec_def b_spec_def
      r_den_def b_den_def to_int32_exact trunc0_def in_int32_def)

lemma sint_word_of_int32: "in_int32 k \<Longrightarrow> sint (word_of_int k :: int32) = k"
  by (simp add: in_int32_def sint_sbintrunc' signed_take_bit_int_eq_self)

lemma sint_to_int32_exact:
  "in_int32 (trunc0 v) \<Longrightarrow> sint (to_int32 (exact ub) v) = trunc0 v"
  by (simp add: to_int32_exact sint_word_of_int32)

lemma colour_map_formulas:
  "colour_map ar x =
     Colour (to_int32 ar (scaled ar (r_formula ar x)))
            (to_int32 ar (scaled ar (g_formula ar x)))
            (to_int32 ar (scaled ar (b_formula ar x)))"
  by (simp add: colour_map_def r_formula_def g_formula_def b_formula_def scaled_def)

lemma truncating_exact: "truncating (exact ub)"
  by (simp add: truncating_def sint_to_int32_exact)

lemma truncating_binary64: "truncating (binary64 ub)"
  by (simp add: truncating_def binary64_ops sint_word_of_int32)

lemma formulas_exact:
  "scaled (exact ub) (r_formula (exact ub) x) = r_spec x * 255"
  "scaled (exact ub) (g_formula (exact ub) x) = g_spec x * 255"
  "scaled (exact ub) (b_formula (exact ub) x) = b_spec x * 255"
  by (simp_all add: scaled_def r_formula_def g_formula_def b_formula_def exact_def
      r_spec_def g_spec_def b_spec_def r_den_def b_den_def of_rat_divide)

lemma scaled_neg_binary64:
  "scaled (binary64 ub) (r_formula (binary64 ub) (- 1)) < - 31"
  "scaled (binary64 ub) (b_formula (binary64 ub) (- 1)) < 0"
  "27 + 1 / 2 < scaled (binary64 ub) (g_formula (binary64 ub) 0)"
  by (simp_all add: scaled_def r_formula_def g_formula_def b_formula_def binary64_ops
      of_rat_divide b64_vals)

lemma scaled_huge_binary64:
  "trunc0 (scaled (binary64 ub) (g_formula (binary64 ub) 100)) = 10030751832407956"
  by (simp add: scaled_def g_formula_def binary64_ops of_rat_divide b64_vals trunc0_def)

lemma near_118_double: "rnd53 near_118 = near_118"
  by (simp add: near_118_def b64_vals)

lemma near_118_machine:
  "trunc0 (scaled (binary64 ub) (r_formula (binary64 ub) near_118)) = 118"
  by (simp add: near_118_def scaled_def r_formula_def binary64_ops of_rat_divide power_divide
      b64_vals trunc0_def)

lemma near_118_exact: "trunc0 (r_spec near_118 * 255) = 117"
  by (simp add: near_118_def r_spec_def r_den_def power_divide trunc0_def)

text \<open>
  Claim C4, amended. In every arithmetic each channel of \<^verbatim>\<open>colour_map(x)\<close> is the
  conversion \<^verbatim>\<open>int(v)\<close> of its formula at \<open>x\<close> times 255, both computed in that
  arithmetic, and nothing is clamped. Where the conversion follows the rule of the
  language, as it does in binary64 and in exact arithmetic, and the truncated value fits
  an \<^verbatim>\<open>int\<close>, the channel is that value truncated toward zero. In exact arithmetic
  the three values are the formulas of the specification over the reals. At \<open>x = -1\<close>
  the channels are \<open>-31\<close>, 117943 and 0, on the machine as in exact arithmetic,
  outside \<open>[0, 255]\<close> and unchanged. The truncation is toward zero and is not a
  rounding: at \<open>x = -1\<close> the scaled red value lies below \<open>-31\<close> and the scaled blue
  value below 0, and at \<open>x = 0\<close> the scaled green value exceeds 27.5 while the channel
  is 27.
\<close>

theorem colour_map_channels:
  assumes "truncating ar"
    and "in_int32 (trunc0 (scaled ar (r_formula ar x)))"
    and "in_int32 (trunc0 (scaled ar (g_formula ar x)))"
    and "in_int32 (trunc0 (scaled ar (b_formula ar x)))"
  shows "sint (col_r (colour_map ar x)) = trunc0 (scaled ar (r_formula ar x)) \<and>
         sint (col_g (colour_map ar x)) = trunc0 (scaled ar (g_formula ar x)) \<and>
         sint (col_b (colour_map ar x)) = trunc0 (scaled ar (b_formula ar x)) \<and>
         colour_map ar' y =
           Colour (to_int32 ar' (scaled ar' (r_formula ar' y)))
                  (to_int32 ar' (scaled ar' (g_formula ar' y)))
                  (to_int32 ar' (scaled ar' (b_formula ar' y))) \<and>
         truncating (binary64 ub) \<and> truncating (exact ub) \<and>
         scaled (exact ub) (r_formula (exact ub) x) = r_spec x * 255 \<and>
         scaled (exact ub) (g_formula (exact ub) x) = g_spec x * 255 \<and>
         scaled (exact ub) (b_formula (exact ub) x) = b_spec x * 255 \<and>
         colour_map (binary64 ub) (- 1) = Colour (- 31) 117943 0 \<and>
         colour_map (exact ub) (- 1) = Colour (- 31) 117943 0 \<and>
         scaled (binary64 ub) (r_formula (binary64 ub) (- 1)) < - 31 \<and>
         scaled (binary64 ub) (b_formula (binary64 ub) (- 1)) < 0 \<and>
         27 + 1 / 2 < scaled (binary64 ub) (g_formula (binary64 ub) 0)"
proof -
  have chan: "sint (to_int32 ar v) = trunc0 v" if "in_int32 (trunc0 v)" for v
    using assms(1) that by (simp add: truncating_def)
  have neg: "colour_map (exact ub) (- 1) = Colour (- 31) 117943 0"
    by (simp add: colour_map_exact r_spec_def g_spec_def b_spec_def r_den_def b_den_def
        to_int32_exact trunc0_def in_int32_def)
  show ?thesis
    using chan [OF assms(2)] chan [OF assms(3)] chan [OF assms(4)] neg
      truncating_binary64 [of ub] truncating_exact [of ub] scaled_neg_binary64 [of ub]
    by (simp add: colour_map_formulas [symmetric] formulas_exact colour_map_neg_binary64)
      (simp add: colour_map_formulas)
qed

theorem colour_map_channels_witness:
  "truncating (binary64 indefinite) \<and>
   in_int32 (trunc0 (scaled (binary64 indefinite) (r_formula (binary64 indefinite) (- 1)))) \<and>
   in_int32 (trunc0 (scaled (binary64 indefinite) (g_formula (binary64 indefinite) (- 1)))) \<and>
   in_int32 (trunc0 (scaled (binary64 indefinite) (b_formula (binary64 indefinite) (- 1)))) \<and>
   sint (col_r (colour_map (binary64 indefinite) (- 1))) =
     trunc0 (scaled (binary64 indefinite) (r_formula (binary64 indefinite) (- 1))) \<and>
   trunc0 (scaled (binary64 indefinite) (r_formula (binary64 indefinite) (- 1))) = - 31 \<and>
   sint (col_g (colour_map (binary64 indefinite) (- 1))) =
     trunc0 (scaled (binary64 indefinite) (g_formula (binary64 indefinite) (- 1))) \<and>
   trunc0 (scaled (binary64 indefinite) (g_formula (binary64 indefinite) (- 1))) = 117943"
proof -
  have v: "trunc0 (scaled (binary64 indefinite) (r_formula (binary64 indefinite) (- 1))) = - 31"
    "trunc0 (scaled (binary64 indefinite) (g_formula (binary64 indefinite) (- 1))) = 117943"
    "trunc0 (scaled (binary64 indefinite) (b_formula (binary64 indefinite) (- 1))) = 0"
    by (simp_all add: scaled_def r_formula_def g_formula_def b_formula_def binary64_ops
        of_rat_divide b64_vals trunc0_def)
  have h: "truncating (binary64 indefinite)"
    "in_int32 (trunc0 (scaled (binary64 indefinite) (r_formula (binary64 indefinite) (- 1))))"
    "in_int32 (trunc0 (scaled (binary64 indefinite) (g_formula (binary64 indefinite) (- 1))))"
    "in_int32 (trunc0 (scaled (binary64 indefinite) (b_formula (binary64 indefinite) (- 1))))"
    by (simp_all add: truncating_binary64 v in_int32_def)
  note t = colour_map_channels [OF h, where ub = indefinite and ar' = "binary64 indefinite"
      and y = 0]
  from t [THEN conjunct1] t [THEN conjunct2, THEN conjunct1] h v show ?thesis
    by simp
qed

text \<open>
  The claim as stated fails in two ways. For every \<open>x\<close>: at \<open>x = 100\<close> the scaled
  green value is about \<open>10\<^sup>1\<^sup>6\<close>, which no \<^verbatim>\<open>int\<close> holds; the conversion then
  yields what the machine yields, here the x86 value \<open>-2147483648\<close>. For the formulas
  over the reals: at the double \<open>near_118\<close>, inside the unit interval, the red formula
  times 255 lies below 118 and truncates to 117, while the machine computes a value that
  truncates to 118.
\<close>

theorem colour_map_out_of_int_counterexample:
  "sint (col_g (colour_map (exact indefinite) 100)) = - 2147483648 \<and>
   trunc0 (g_spec 100 * 255) = 10030751832407955 \<and>
   sint (col_g (colour_map (exact indefinite) 100)) \<noteq> trunc0 (g_spec 100 * 255) \<and>
   sint (col_g (colour_map (binary64 indefinite) 100)) = - 2147483648 \<and>
   trunc0 (scaled (binary64 indefinite) (g_formula (binary64 indefinite) 100)) = 10030751832407956 \<and>
   rnd53 near_118 = near_118 \<and> 0 \<le> near_118 \<and> near_118 \<le> 1 \<and>
   sint (col_r (colour_map (binary64 indefinite) near_118)) = 118 \<and>
   trunc0 (r_spec near_118 * 255) = 117"
proof -
  have v: "trunc0 (g_spec 100 * 255) = 10030751832407955"
    by (simp add: g_spec_def trunc0_def)
  then have "\<not> in_int32 (trunc0 (g_spec 100 * 255))"
    by (simp add: in_int32_def)
  then have "to_int32 (exact indefinite) (g_spec 100 * 255) = - (2 ^ 31)"
    by (simp add: exact_def indefinite_def)
  then have range: "sint (col_g (colour_map (exact indefinite) 100)) = - 2147483648"
    by (simp add: colour_map_exact)
  have "in_int32 (trunc0 (scaled (binary64 indefinite) (r_formula (binary64 indefinite) near_118)))"
    by (simp add: near_118_machine in_int32_def)
  then have "sint (to_int32 (binary64 indefinite)
      (scaled (binary64 indefinite) (r_formula (binary64 indefinite) near_118))) = 118"
    using truncating_binary64 [of indefinite] by (simp add: truncating_def near_118_machine)
  then have machine: "sint (col_r (colour_map (binary64 indefinite) near_118)) = 118"
    by (simp add: colour_map_formulas)
  have unit: "0 \<le> near_118 \<and> near_118 \<le> 1"
    by (simp add: near_118_def)
  show ?thesis
    using v range machine unit
    by (simp add: colour_map_huge_binary64 scaled_huge_binary64 near_118_double near_118_exact)
qed

lemma no_int32_holds_it:
  "sint (w :: int32) \<noteq> trunc0 (g_spec 100 * 255)"
proof -
  have "sint w < 2 ^ 31"
    using sint_lt [of w] by simp
  moreover have "trunc0 (g_spec 100 * 255) = 10030751832407955"
    by (simp add: g_spec_def trunc0_def)
  ultimately show ?thesis
    by simp
qed

section \<open>Calling a function at the points of a list\<close>

lemma calls_append:
  "calls f s (xs @ ys) =
     (let (vs, s') = calls f s xs; (ws, s'') = calls f s' ys in (vs @ ws, s''))"
  by (induction xs arbitrary: s) (simp_all add: Let_def split: prod.splits)

lemma calls_length: "length (fst (calls f s xs)) = length xs"
proof (induction xs arbitrary: s)
  case Nil
  show ?case by simp
next
  case (Cons x xs)
  obtain v s' where head: "f x s = (v, s')"
    by (cases "f x s")
  obtain vs s'' where tail: "calls f s' xs = (vs, s'')"
    by (cases "calls f s' xs")
  from Cons [of s'] tail have "length vs = length xs"
    by simp
  then show ?case
    by (simp add: head tail)
qed

lemma calls_pure: "calls (pure_fn g) s xs = (map g xs, s)"
  by (induction xs) (simp_all add: pure_fn_def)

lemma calls_logged: "calls (logged g) seen xs = (map g xs, seen @ xs)"
  by (induction xs arbitrary: seen) (simp_all add: logged_def)

lemma calls_append_state:
  "snd (calls f s (xs @ ys)) = snd (calls f (snd (calls f s xs)) ys)"
  by (simp add: calls_append Let_def split: prod.splits)

section \<open>The loops of the predicate renderer\<close>

lemma nat_width: "nat width = 80"
  by (simp add: width_def)

lemma nat_height: "nat height = 24"
  by (simp add: height_def)

lemma upt_width: "i < nat width \<Longrightarrow> [i..<nat width] = i # [Suc i..<nat width]"
  by (simp add: upt_conv_Cons)

lemma upt_height: "j < nat height \<Longrightarrow> [j..<nat height] = j # [Suc j..<nat height]"
  by (simp add: upt_conv_Cons)

text \<open>
  Each loop is unfolded once per induction step; the induction is on the number of
  iterations left.
\<close>

lemma render_cols_pure:
  "render_cols ar (pure_fn p) a sr si j i (s, out) =
     (s, out @ map (\<lambda>i. cell_char (p (sample ar a sr si i j))) [i..<nat width])"
proof (induction "nat width - i" arbitrary: i out)
  case 0
  then show ?case
    by (subst render_cols.simps) simp
next
  case (Suc n)
  then have less: "i < nat width" and n: "n = nat width - Suc i"
    by simp_all
  show ?case
    using less
    by (subst render_cols.simps)
      (simp add: Suc.hyps(1) [OF n] pure_fn_def sample_def cell_char_def upt_width)
qed

lemma render_cols_logged:
  "render_cols ar (logged p) a sr si j i (seen, out) =
     (seen @ map (\<lambda>i. sample ar a sr si i j) [i..<nat width],
      out @ map (\<lambda>i. cell_char (p (sample ar a sr si i j))) [i..<nat width])"
proof (induction "nat width - i" arbitrary: i seen out)
  case 0
  then show ?case
    by (subst render_cols.simps) simp
next
  case (Suc n)
  then have less: "i < nat width" and n: "n = nat width - Suc i"
    by simp_all
  show ?case
    using less
    by (subst render_cols.simps)
      (simp add: Suc.hyps(1) [OF n] logged_def sample_def cell_char_def upt_width)
qed

lemma render_cols_shape:
  "\<exists>row. snd (render_cols ar pred a sr si j i (s, out)) = out @ row \<and>
     length row = nat width - i \<and> set row \<subseteq> {CHR ''#'', CHR '' ''}"
proof (induction "nat width - i" arbitrary: i s out)
  case 0
  then show ?case
    by (subst render_cols.simps) simp
next
  case (Suc n)
  then have less: "i < nat width" and n: "n = nat width - Suc i"
    by simp_all
  obtain t s' where call: "pred (sample ar a sr si i j) s = (t, s')"
    by (cases "pred (sample ar a sr si i j) s")
  from Suc.hyps(1) [OF n, of s' "out @ [cell_char t]"]
  obtain row where row: "snd (render_cols ar pred a sr si j (Suc i) (s', out @ [cell_char t]))
      = (out @ [cell_char t]) @ row" "length row = nat width - Suc i"
      "set row \<subseteq> {CHR ''#'', CHR '' ''}"
    by blast
  have "render_cols ar pred a sr si j i (s, out) =
      render_cols ar pred a sr si j (Suc i) (s', out @ [cell_char t])"
    using less call
    by (subst render_cols.simps) (simp add: sample_def cell_char_def)
  with row less show ?case
    by (intro exI [of _ "cell_char t # row"]) (auto simp: cell_char_def)
qed

lemma render_rows_pure:
  "render_rows ar (pure_fn p) a sr si j (s, out) =
     (s, out @ concat (map (\<lambda>j. map (\<lambda>i. cell_char (p (sample ar a sr si i j))) [0..<nat width]
                                  @ [newline]) [j..<nat height]))"
proof (induction "nat height - j" arbitrary: j out)
  case 0
  then show ?case
    by (subst render_rows.simps) simp
next
  case (Suc n)
  then have less: "j < nat height" and n: "n = nat height - Suc j"
    by simp_all
  show ?case
    using less
    by (subst render_rows.simps)
      (simp add: Suc.hyps(1) [OF n] render_cols_pure upt_height)
qed

lemma render_rows_logged:
  "render_rows ar (logged p) a sr si j (seen, out) =
     (seen @ concat (map (\<lambda>j. map (\<lambda>i. sample ar a sr si i j) [0..<nat width]) [j..<nat height]),
      out @ concat (map (\<lambda>j. map (\<lambda>i. cell_char (p (sample ar a sr si i j))) [0..<nat width]
                                  @ [newline]) [j..<nat height]))"
proof (induction "nat height - j" arbitrary: j seen out)
  case 0
  then show ?case
    by (subst render_rows.simps) simp
next
  case (Suc n)
  then have less: "j < nat height" and n: "n = nat height - Suc j"
    by simp_all
  show ?case
    using less
    by (subst render_rows.simps)
      (simp add: Suc.hyps(1) [OF n] render_cols_logged upt_height)
qed

lemma render_rows_shape:
  "\<exists>rows. snd (render_rows ar pred a sr si j (s, out)) = out @ concat (map (\<lambda>r. r @ [newline]) rows) \<and>
     length rows = nat height - j \<and> list_all row_ok rows"
proof (induction "nat height - j" arbitrary: j s out)
  case 0
  then show ?case
    by (subst render_rows.simps) simp
next
  case (Suc n)
  then have less: "j < nat height" and n: "n = nat height - Suc j"
    by simp_all
  obtain s' out' where cols: "render_cols ar pred a sr si j 0 (s, out) = (s', out')"
    by (cases "render_cols ar pred a sr si j 0 (s, out)")
  from render_cols_shape [of ar pred a sr si j 0 s out] cols
  obtain row where row: "out' = out @ row" "row_ok row"
    by (auto simp: row_ok_def)
  from Suc.hyps(1) [OF n, of s' "out' @ [newline]"]
  obtain rows where rows:
    "snd (render_rows ar pred a sr si (Suc j) (s', out' @ [newline])) =
       (out' @ [newline]) @ concat (map (\<lambda>r. r @ [newline]) rows)"
    "length rows = nat height - Suc j" "list_all row_ok rows"
    by blast
  have "render_rows ar pred a sr si j (s, out) =
      render_rows ar pred a sr si (Suc j) (s', out' @ [newline])"
    using less cols by (subst render_rows.simps) simp
  with row rows less show ?case
    by (intro exI [of _ "row # rows"]) simp
qed

lemma render_cols_state:
  "fst (render_cols ar pred a sr si j i (s, out)) =
     snd (calls pred s (map (\<lambda>i. sample ar a sr si i j) [i..<nat width]))"
proof (induction "nat width - i" arbitrary: i s out)
  case 0
  then show ?case
    by (subst render_cols.simps) simp
next
  case (Suc n)
  then have less: "i < nat width" and n: "n = nat width - Suc i"
    by simp_all
  show ?case
    using less
    by (subst render_cols.simps)
      (simp add: Suc.hyps(1) [OF n] sample_def upt_width Let_def split: prod.splits)
qed

lemma render_rows_state:
  "fst (render_rows ar pred a sr si j (s, out)) =
     snd (calls pred s (concat (map (\<lambda>j. map (\<lambda>i. sample ar a sr si i j) [0..<nat width])
                                  [j..<nat height])))"
proof (induction "nat height - j" arbitrary: j s out)
  case 0
  then show ?case
    by (subst render_rows.simps) simp
next
  case (Suc n)
  then have less: "j < nat height" and n: "n = nat height - Suc j"
    by simp_all
  obtain s' out' where cols: "render_cols ar pred a sr si j 0 (s, out) = (s', out')"
    by (cases "render_cols ar pred a sr si j 0 (s, out)")
  then have s': "s' = snd (calls pred s (map (\<lambda>i. sample ar a sr si i j) [0..<nat width]))"
    using render_cols_state [of ar pred a sr si j 0 s out] by simp
  show ?case
    using less
    by (subst render_rows.simps)
      (simp add: Suc.hyps(1) [OF n] cols s' upt_height calls_append_state)
qed

section \<open>The predicate renderer as a whole\<close>

lemma sample_grid:
  "sample ar a (fdiv ar (fsub ar (creal b) (creal a)) (of_int32 ar width))
      (fdiv ar (fsub ar (cimag b) (cimag a)) (of_int32 ar height)) i j = grid_point ar a b i j"
  by (simp add: sample_def grid_point_def width_def height_def)

lemma render_pure:
  "render ar (pure_fn p) a b (s, out) =
     (s, out @ concat (map (\<lambda>j. map (\<lambda>i. cell_char (p (grid_point ar a b i j))) [0..<80] @ [newline])
                        [0..<24]))"
  by (simp add: render_def render_rows_pure sample_grid nat_width nat_height)

lemma render_logged:
  "render ar (logged p) a b (seen, out) =
     (seen @ concat (map (\<lambda>j. map (\<lambda>i. grid_point ar a b i j) [0..<80]) [0..<24]),
      out @ concat (map (\<lambda>j. map (\<lambda>i. cell_char (p (grid_point ar a b i j))) [0..<80] @ [newline])
                        [0..<24]))"
  by (simp add: render_def render_rows_logged sample_grid nat_width nat_height)

lemma concat_cells:
  "concat (map (\<lambda>j. map (\<lambda>i. f i j) [0..<80]) [0..<24]) = map (\<lambda>(j, i). f i j) cells"
  unfolding cells_def List.product_concat_map
  by (simp add: map_concat comp_def)

lemma grid_points_cells:
  "concat (map (\<lambda>j. map (\<lambda>i. sample ar a
       (fdiv ar (fsub ar (creal b) (creal a)) (of_int32 ar width))
       (fdiv ar (fsub ar (cimag b) (cimag a)) (of_int32 ar height)) i j) [0..<nat width])
     [0..<nat height]) = map (\<lambda>(j, i). grid_point ar a b i j) cells"
  using concat_cells [of "\<lambda>i j. grid_point ar a b i j"]
  by (simp add: sample_grid nat_width nat_height)

lemma render_state:
  "fst (render ar pred a b (s, out)) =
     snd (calls pred s (map (\<lambda>(j, i). grid_point ar a b i j) cells))"
  by (simp add: render_def render_rows_state grid_points_cells)

lemma render_lines:
  "\<exists>rows. snd (render ar pred a b (s, [])) = concat (map (\<lambda>r. r @ [newline]) rows) \<and>
     length rows = 24 \<and> list_all row_ok rows"
  using render_rows_shape [of ar pred a _ _ 0 s "[]"]
  by (simp add: render_def nat_height)

lemma lines_acc_row:
  "newline \<notin> set r \<Longrightarrow> lines_acc cur (r @ newline # rest) = (cur @ r) # lines_acc [] rest"
  by (induction r arbitrary: cur) auto

lemma lines_of_rows:
  "list_all (\<lambda>r. newline \<notin> set r) rows \<Longrightarrow>
     lines_of (concat (map (\<lambda>r. r @ [newline]) rows)) = rows"
  unfolding lines_of_def
  by (induction rows) (simp_all add: lines_acc_row)

lemma row_ok_newline: "row_ok r \<Longrightarrow> newline \<notin> set r"
  by (auto simp: row_ok_def newline_def)

lemma rows_ok_lengths:
  "list_all row_ok rows \<Longrightarrow> map length rows = replicate (length rows) 80"
  by (induction rows) (simp_all add: row_ok_def nat_width)

text \<open>
  Claim C2. Whatever the predicate (with or without state), the arithmetic and the
  corner points, the output of \<^verbatim>\<open>render\<close> on an empty stream consists of 24 lines of
  80 characters, each followed by its newline and nothing after the last one. For the
  predicate that always returns true every line is 80 times \<open>#\<close>, for the one that
  always returns false 80 spaces. The hypothesis that the corners differ is not needed.
\<close>

theorem render_line_count:
  "map length (lines_of (snd (render ar pred a b (s, [])))) = replicate 24 80 \<and>
   snd (render ar pred a b (s, [])) =
     concat (map (\<lambda>r. r @ [newline]) (lines_of (snd (render ar pred a b (s, []))))) \<and>
   lines_of (snd (render ar (pure_fn (\<lambda>c. True)) a b (s, []))) = replicate 24 (replicate 80 (CHR ''#'')) \<and>
   lines_of (snd (render ar (pure_fn (\<lambda>c. False)) a b (s, []))) = replicate 24 (replicate 80 (CHR '' ''))"
proof -
  obtain rows where rows:
    "snd (render ar pred a b (s, [])) = concat (map (\<lambda>r. r @ [newline]) rows)"
    "length rows = 24" "list_all row_ok rows"
    using render_lines [of ar pred a b s] by blast
  have nl: "list_all (\<lambda>r. newline \<notin> set r) rows"
    using rows(3) by (induction rows) (simp_all add: row_ok_newline)
  have lines: "lines_of (snd (render ar pred a b (s, []))) = rows"
    by (simp add: rows(1) lines_of_rows [OF nl])
  have nlc: "list_all (\<lambda>r. newline \<notin> set r) (replicate 24 (replicate 80 c))"
    if "c \<noteq> newline" for c
    using that by (simp add: list_all_iff)
  have fill: "lines_of (snd (render ar (pure_fn (\<lambda>c. t)) a b (s, []))) =
      replicate 24 (replicate 80 (cell_char t))" for t
  proof -
    have "snd (render ar (pure_fn (\<lambda>c. t)) a b (s, [])) =
        concat (map (\<lambda>r. r @ [newline]) (replicate 24 (replicate 80 (cell_char t))))"
      by (simp add: render_pure map_replicate_const)
    moreover have "cell_char t \<noteq> newline"
      by (simp add: cell_char_def newline_def)
    ultimately show ?thesis
      using lines_of_rows [OF nlc, of "cell_char t"] by simp
  qed
  show ?thesis
    using rows lines rows_ok_lengths [OF rows(3)] fill [of True] fill [of False]
    by (simp add: cell_char_def)
qed

section \<open>The sample points\<close>

lemma cells_index: "map (\<lambda>(j, i). j * 80 + i) cells = [0..<1920]"
proof -
  have row: "map (\<lambda>i. j * 80 + i) [0..<80] = [j * 80..<Suc j * 80]" for j :: nat
    by (simp add: map_add_upt add.commute)
  have "concat (map (\<lambda>j. [j * 80..<Suc j * 80]) [0..<h]) = [0..<h * 80]" for h :: nat
  proof (induction h)
    case 0
    show ?case by simp
  next
    case (Suc h)
    have "[0..<h * 80] @ [h * 80..<Suc h * 80] = [0..<Suc h * 80]"
      by (metis le_add2 mult_Suc upt_add_eq_append zero_le add.commute)
    with Suc show ?case by simp
  qed
  from this [of 24] show ?thesis
    using concat_cells [of "\<lambda>i j. j * 80 + i"] by (simp add: row)
qed

lemma grid_point_exact:
  "grid_point (exact ub) a b i j =
     Cplx (creal a + real i * (creal b - creal a) / 80) (cimag a + real j * (cimag b - cimag a) / 24)"
  by (simp add: grid_point_def cadd_def exact_def)

text \<open>
  Claim C1. Whatever the predicate, \<^verbatim>\<open>render\<close> leaves it in the state that calling
  it once at each of the points \<open>grid_point ar a b i j\<close>, in the order of \<open>cells\<close>,
  leaves it in; a predicate that records its arguments records exactly that list. The
  \<open>k\<close>-th cell of \<open>cells\<close> is \<open>(j, i)\<close> with \<open>k = j * 80 + i\<close>, so the order is
  row-major with \<open>j\<close> outer and \<open>i\<close> inner, and every cell with \<open>i < 80\<close> and \<open>j < 24\<close>
  occurs exactly once. In exact arithmetic the point is
  \<open>A + (i * (B.re - A.re) / 80, j * (B.im - A.im) / 24)\<close>.
\<close>

theorem render_samples:
  "fst (render ar pred a b (s, out)) =
     snd (calls pred s (map (\<lambda>(j, i). grid_point ar a b i j) cells)) \<and>
   fst (render ar (logged p) a b ([], out)) = map (\<lambda>(j, i). grid_point ar a b i j) cells \<and>
   map (\<lambda>(j, i). j * 80 + i) cells = [0..<80 * 24] \<and>
   distinct cells \<and> set cells = {0..<24} \<times> {0..<80} \<and>
   grid_point (exact ub) a b i j =
     Cplx (creal a + real i * (creal b - creal a) / 80) (cimag a + real j * (cimag b - cimag a) / 24)"
  using concat_cells [of "\<lambda>i j. grid_point ar a b i j"]
  by (simp add: render_state calls_logged cells_index grid_point_exact)
    (simp add: cells_def distinct_product)

section \<open>The loops of the gradient renderer\<close>

lemma render_colour_cols_pure:
  "render_colour_cols ar (pure_fn f) a sr si j i (s, out) =
     (s, out @ concat (map (\<lambda>i. colour_cell (colour_map ar (f (sample ar a sr si i j))))
                        [i..<nat width]))"
proof (induction "nat width - i" arbitrary: i out)
  case 0
  then show ?case
    by (subst render_colour_cols.simps) simp
next
  case (Suc n)
  then have less: "i < nat width" and n: "n = nat width - Suc i"
    by simp_all
  show ?case
    using less
    by (subst render_colour_cols.simps)
      (simp add: Suc.hyps(1) [OF n] pure_fn_def sample_def colour_cell_def upt_width Let_def)
qed

lemma render_colour_cols_logged:
  "fst (render_colour_cols ar (logged f) a sr si j i (seen, out)) =
     seen @ map (\<lambda>i. sample ar a sr si i j) [i..<nat width]"
proof (induction "nat width - i" arbitrary: i seen out)
  case 0
  then show ?case
    by (subst render_colour_cols.simps) simp
next
  case (Suc n)
  then have less: "i < nat width" and n: "n = nat width - Suc i"
    by simp_all
  show ?case
    using less
    by (subst render_colour_cols.simps)
      (simp add: Suc.hyps(1) [OF n] logged_def sample_def upt_width Let_def)
qed

lemma render_colour_rows_pure:
  "render_colour_rows ar (pure_fn f) a sr si j (s, out) =
     (s, out @ concat (map (\<lambda>j. concat (map (\<lambda>i. colour_cell (colour_map ar (f (sample ar a sr si i j))))
                                         [0..<nat width]) @ [newline]) [j..<nat height]))"
proof (induction "nat height - j" arbitrary: j out)
  case 0
  then show ?case
    by (subst render_colour_rows.simps) simp
next
  case (Suc n)
  then have less: "j < nat height" and n: "n = nat height - Suc j"
    by simp_all
  show ?case
    using less
    by (subst render_colour_rows.simps)
      (simp add: Suc.hyps(1) [OF n] render_colour_cols_pure upt_height)
qed

lemma render_colour_rows_logged:
  "fst (render_colour_rows ar (logged f) a sr si j (seen, out)) =
     seen @ concat (map (\<lambda>j. map (\<lambda>i. sample ar a sr si i j) [0..<nat width]) [j..<nat height])"
proof (induction "nat height - j" arbitrary: j seen out)
  case 0
  then show ?case
    by (subst render_colour_rows.simps) simp
next
  case (Suc n)
  then have less: "j < nat height" and n: "n = nat height - Suc j"
    by simp_all
  obtain seen' out' where cols:
    "render_colour_cols ar (logged f) a sr si j 0 (seen, out) = (seen', out')"
    by (cases "render_colour_cols ar (logged f) a sr si j 0 (seen, out)")
  then have seen': "seen' = seen @ map (\<lambda>i. sample ar a sr si i j) [0..<nat width]"
    using render_colour_cols_logged [of ar f a sr si j 0 seen out] by simp
  show ?case
    using less
    by (subst render_colour_rows.simps)
      (simp add: Suc.hyps(1) [OF n] cols seen' upt_height)
qed

lemma render_colour_pure:
  "render_colour ar (pure_fn f) a b (s, out) =
     (s, out @ concat (map (\<lambda>j. concat (map (\<lambda>i. colour_cell (colour_map ar (f (grid_point ar a b i j))))
                                         [0..<80]) @ [newline]) [0..<24]) @ esc # ''[m'')"
  by (simp add: render_colour_def render_colour_rows_pure sample_grid nat_width nat_height)

lemma render_colour_logged:
  "fst (render_colour ar (logged f) a b (seen, out)) =
     seen @ concat (map (\<lambda>j. map (\<lambda>i. grid_point ar a b i j) [0..<80]) [0..<24])"
proof -
  let ?sr = "fdiv ar (fsub ar (creal b) (creal a)) (of_int32 ar width)"
  let ?si = "fdiv ar (fsub ar (cimag b) (cimag a)) (of_int32 ar height)"
  have "fst (render_colour ar (logged f) a b (seen, out)) =
      fst (render_colour_rows ar (logged f) a ?sr ?si 0 (seen, out))"
    by (simp add: render_colour_def Let_def split: prod.splits)
  then show ?thesis
    by (simp add: render_colour_rows_logged sample_grid nat_width nat_height)
qed

lemma render_colour_reset:
  "\<exists>body. snd (render_colour ar f a b (s, out)) = body @ esc # ''[m''"
  by (simp add: render_colour_def Let_def split: prod.splits)

lemma render_colour_cols_calls:
  "render_colour_cols ar f a sr si j i (s, out) =
     (snd (calls f s (map (\<lambda>i. sample ar a sr si i j) [i..<nat width])),
      out @ concat (map (\<lambda>v. colour_cell (colour_map ar v))
                     (fst (calls f s (map (\<lambda>i. sample ar a sr si i j) [i..<nat width])))))"
proof (induction "nat width - i" arbitrary: i s out)
  case 0
  then show ?case
    by (subst render_colour_cols.simps) simp
next
  case (Suc n)
  then have less: "i < nat width" and n: "n = nat width - Suc i"
    by simp_all
  show ?case
    using less
    by (subst render_colour_cols.simps)
      (simp add: Suc.hyps(1) [OF n] sample_def colour_cell_def upt_width Let_def
        split: prod.splits)
qed

lemma render_colour_rows_calls:
  "render_colour_rows ar f a sr si j (s, out) =
     (snd (calls f s (concat (map (\<lambda>j. map (\<lambda>i. sample ar a sr si i j) [0..<nat width])
                               [j..<nat height]))),
      out @ concat (map (\<lambda>j'. concat (map (\<lambda>i. colour_cell (colour_map ar
              (fst (calls f s (concat (map (\<lambda>j. map (\<lambda>i. sample ar a sr si i j) [0..<nat width])
                                         [j..<nat height]))) ! ((j' - j) * 80 + i))))
              [0..<80]) @ [newline]) [j..<nat height]))"
proof (induction "nat height - j" arbitrary: j s out)
  case 0
  then show ?case
    by (subst render_colour_rows.simps) simp
next
  case (Suc n)
  then have less: "j < nat height" and n: "n = nat height - Suc j"
    by simp_all
  let ?row = "map (\<lambda>i. sample ar a sr si i j) [0..<nat width]"
  let ?rest = "concat (map (\<lambda>j. map (\<lambda>i. sample ar a sr si i j) [0..<nat width])
      [Suc j..<nat height])"
  let ?cc = "\<lambda>v. colour_cell (colour_map ar v)"
  obtain vs s1 where row: "calls f s ?row = (vs, s1)"
    by (cases "calls f s ?row")
  obtain ws s2 where rest: "calls f s1 ?rest = (ws, s2)"
    by (cases "calls f s1 ?rest")
  have len: "length vs = 80"
    using calls_length [of f s ?row] row by (simp add: nat_width)
  have all: "calls f s (?row @ ?rest) = (vs @ ws, s2)"
    by (simp add: calls_append row rest)
  have first: "map (\<lambda>i. ?cc ((vs @ ws) ! i)) [0..<80] = map ?cc vs"
  proof -
    have "map (\<lambda>i. ?cc ((vs @ ws) ! i)) [0..<80] = map (\<lambda>i. ?cc (vs ! i)) [0..<length vs]"
      using len by (simp add: nth_append)
    also have "\<dots> = map ?cc (map (\<lambda>i. vs ! i) [0..<length vs])"
      by simp
    also have "\<dots> = map ?cc vs"
      by (simp only: map_nth)
    finally show ?thesis .
  qed
  have later: "(vs @ ws) ! ((j' - j) * 80 + i) = ws ! ((j' - Suc j) * 80 + i)"
    if "Suc j \<le> j'" for j' i
  proof -
    have "(j' - j) * 80 + i = length vs + ((j' - Suc j) * 80 + i)"
      using that len by (simp add: Suc_diff_le)
    then show ?thesis
      by (simp only: nth_append_length_plus)
  qed
  have tail: "map (\<lambda>j'. concat (map (\<lambda>i. ?cc ((vs @ ws) ! ((j' - j) * 80 + i))) [0..<80]) @ [newline])
        [Suc j..<nat height] =
      map (\<lambda>j'. concat (map (\<lambda>i. ?cc (ws ! ((j' - Suc j) * 80 + i))) [0..<80]) @ [newline])
        [Suc j..<nat height]"
    by (rule map_cong) (simp_all add: later)
  have step: "render_colour_rows ar f a sr si j (s, out) =
      render_colour_rows ar f a sr si (Suc j) (s1, (out @ concat (map ?cc vs)) @ [newline])"
    using less by (subst render_colour_rows.simps) (simp add: render_colour_cols_calls row)
  show ?case
    unfolding step Suc.hyps(1) [OF n] upt_height [OF less]
    by (simp add: all rest first tail)
qed


lemma render_colour_calls:
  "snd (render_colour ar f a b (s, out)) =
     out @ concat (map (\<lambda>j. concat (map (\<lambda>i. colour_cell (colour_map ar
              (fst (calls f s (map (\<lambda>(j, i). grid_point ar a b i j) cells)) ! (j * 80 + i))))
              [0..<80]) @ [newline]) [0..<24]) @ esc # ''[m''"
proof -
  let ?sr = "fdiv ar (fsub ar (creal b) (creal a)) (of_int32 ar width)"
  let ?si = "fdiv ar (fsub ar (cimag b) (cimag a)) (of_int32 ar height)"
  have pts: "concat (map (\<lambda>j. map (\<lambda>i. sample ar a ?sr ?si i j) [0..<nat width]) [0..<nat height]) =
      map (\<lambda>(j, i). grid_point ar a b i j) cells"
    using concat_cells [of "\<lambda>i j. grid_point ar a b i j"]
    by (simp add: sample_grid nat_width nat_height)
  have "snd (render_colour ar f a b (s, out)) =
      snd (render_colour_rows ar f a ?sr ?si 0 (s, out)) @ esc # ''[m''"
    by (simp add: render_colour_def Let_def split: prod.splits)
  then show ?thesis
    unfolding render_colour_rows_calls pts by (simp add: nat_height)
qed

lemma render_colour_state:
  "fst (render_colour ar f a b (s, out)) =
     snd (calls f s (map (\<lambda>(j, i). grid_point ar a b i j) cells))"
proof -
  let ?sr = "fdiv ar (fsub ar (creal b) (creal a)) (of_int32 ar width)"
  let ?si = "fdiv ar (fsub ar (cimag b) (cimag a)) (of_int32 ar height)"
  have "fst (render_colour ar f a b (s, out)) = fst (render_colour_rows ar f a ?sr ?si 0 (s, out))"
    by (simp add: render_colour_def Let_def split: prod.splits)
  then show ?thesis
    by (simp add: render_colour_rows_calls grid_points_cells)
qed

text \<open>
  Claim C10. \<^verbatim>\<open>render\<close> and \<^verbatim>\<open>render_colour\<close> call the function they are given at
  the same points in the same order: the points \<open>grid_point ar a b i j\<close> in the
  row-major order of \<open>cells\<close>. Functions that record their arguments record the same
  list in both, and any function is left in the state that these calls leave it in.
\<close>

theorem same_samples:
  "fst (render ar (logged p) a b (seen, out)) = fst (render_colour ar (logged f) a b (seen, out')) \<and>
   fst (render ar (logged p) a b (seen, out)) = seen @ map (\<lambda>(j, i). grid_point ar a b i j) cells \<and>
   fst (render_colour ar (logged f) a b (seen, out')) = seen @ map (\<lambda>(j, i). grid_point ar a b i j) cells \<and>
   fst (render ar pred a b (s, out)) =
     snd (calls pred s (map (\<lambda>(j, i). grid_point ar a b i j) cells)) \<and>
   fst (render_colour ar g a b (t, out')) =
     snd (calls g t (map (\<lambda>(j, i). grid_point ar a b i j) cells))"
  using concat_cells [of "\<lambda>i j. grid_point ar a b i j"]
  by (simp add: render_logged render_colour_logged render_state render_colour_state calls_logged)

text \<open>The decimal digits that \<^verbatim>\<open><<\<close> writes, on examples.\<close>

lemma show_int_examples:
  "show_int 0 = ''0'' \<and> show_int 129 = ''129'' \<and> show_int (- 2147483648) = ''-2147483648''"
  by (simp add: show_int_def show_nat.simps digit_char_def)

lemma colour_cell_example:
  "colour_cell (Colour 120 27 129) = esc # ''[38;2;120;27;129m#''"
  by (simp add: colour_cell_def show_int_def show_nat.simps digit_char_def)

lemma colour_cell_neg:
  "colour_cell (Colour (- 1) 256 0) = esc # ''[38;2;-1;256;0m#''"
  by (simp add: colour_cell_def show_int_def show_nat.simps digit_char_def)

text \<open>
  Claim C5. Whatever the scalar function (with or without state), the arithmetic, the
  corners and the text written before, \<^verbatim>\<open>render_colour\<close> appends, row by row and cell
  by cell in row-major order, the escape sequence \<^verbatim>\<open>ESC[38;2;R;G;Bm\<close> of the colour
  that \<^verbatim>\<open>colour_map\<close> gives for the value the function returned at that cell's sample
  point (the call number \<open>j * 80 + i\<close>), followed by \<open>#\<close>; a newline ends each of the 24
  rows; the reset sequence \<^verbatim>\<open>ESC[m\<close> ends the output. For a function \<open>g\<close> without
  state the value at cell \<open>(i, j)\<close> is \<open>g\<close> at the sample point of the cell.
\<close>

theorem render_colour_output:
  "snd (render_colour ar f a b (s, out)) =
     out @ concat (map (\<lambda>j. concat (map (\<lambda>i. colour_cell (colour_map ar
              (fst (calls f s (map (\<lambda>(j, i). grid_point ar a b i j) cells)) ! (j * 80 + i))))
              [0..<80]) @ [newline]) [0..<24]) @ esc # ''[m'' \<and>
   fst (calls (pure_fn g) s xs) = map g xs \<and>
   snd (render_colour ar (pure_fn g) a b (s, [])) =
     concat (map (\<lambda>j. concat (map (\<lambda>i. colour_cell (colour_map ar (g (grid_point ar a b i j))))
                               [0..<80]) @ [newline]) [0..<24]) @ esc # ''[m''"
  by (simp add: render_colour_calls render_colour_pure calls_pure)

section \<open>Single cells, swapped corners, equal corners\<close>

lemma render_pure_lines:
  "lines_of (snd (render ar (pure_fn p) a b (s, []))) =
     map (\<lambda>j. map (\<lambda>i. cell_char (p (grid_point ar a b i j))) [0..<80]) [0..<24]"
proof -
  let ?rows = "map (\<lambda>j. map (\<lambda>i. cell_char (p (grid_point ar a b i j))) [0..<80]) [0..<24]"
  have "list_all (\<lambda>r. newline \<notin> set r) ?rows"
    by (auto simp: list_all_iff cell_char_def newline_def)
  from lines_of_rows [OF this] show ?thesis
    by (simp add: render_pure comp_def)
qed

lemma render_char:
  "i < 80 \<Longrightarrow> j < 24 \<Longrightarrow>
     char_at (snd (render ar (pure_fn p) a b (s, []))) i j = cell_char (p (grid_point ar a b i j))"
  by (simp add: char_at_def render_pure_lines)

lemma grid_point_swapped:
  assumes "0 < i" "i < 80" "0 < j" "j < 24"
  shows "grid_point (exact ub) b a i j = grid_point (exact ub') a b (80 - i) (24 - j)"
proof -
  have i: "real (80 - i) = 80 - real i" and j: "real (24 - j) = 24 - real j"
    using assms by (simp_all add: of_nat_diff)
  show ?thesis
    by (simp add: grid_point_exact i j field_simps)
qed

lemma grid_point_short:
  assumes "i < 80" "j < 24"
  shows "(creal a < creal b \<longrightarrow> creal (grid_point (exact ub) a b i j) < creal b) \<and>
         (creal b < creal a \<longrightarrow> creal b < creal (grid_point (exact ub) a b i j)) \<and>
         (cimag a < cimag b \<longrightarrow> cimag (grid_point (exact ub) a b i j) < cimag b) \<and>
         (cimag b < cimag a \<longrightarrow> cimag b < cimag (grid_point (exact ub) a b i j))"
proof -
  have re: "creal b - creal (grid_point (exact ub) a b i j) = (creal b - creal a) * ((80 - real i) / 80)"
    by (simp add: grid_point_exact field_simps)
  have im: "cimag b - cimag (grid_point (exact ub) a b i j) = (cimag b - cimag a) * ((24 - real j) / 24)"
    by (simp add: grid_point_exact field_simps)
  have fi: "0 < (80 - real i) / 80" and fj: "0 < (24 - real j) / 24"
    using assms by simp_all
  have pos: "0 < d \<Longrightarrow> 0 < d * c" and neg: "d < 0 \<Longrightarrow> d * c < 0" if "0 < c" for c d :: real
    using that by (simp_all add: mult_neg_pos)
  show ?thesis
    using pos [OF fi, of "creal b - creal a"] neg [OF fi, of "creal b - creal a"]
      pos [OF fj, of "cimag b - cimag a"] neg [OF fj, of "cimag b - cimag a"]
    unfolding re [symmetric] im [symmetric] by auto
qed

lemma grid_point_rounded_binary64:
  "grid_point (binary64 ub) (Cplx 1 24) (Cplx 0 0) 2 1 =
     Cplx (8782019273372467 / 9007199254740992) 23"
  "grid_point (binary64 ub) (Cplx 0 0) (Cplx 1 24) 78 23 =
     Cplx (2195504818343117 / 2251799813685248) 23"
  by (simp_all add: grid_point_def cadd_def binary64_ops b64_vals)

lemma grid_point_far_lines:
  "creal (grid_point (exact ub) b a 0 j) = creal b"
  "cimag (grid_point (exact ub) b a i 0) = cimag b"
  by (simp_all add: grid_point_exact)

lemma grid_point_swap_binary64:
  "grid_point (binary64 ub) (Cplx 80 24) (Cplx 0 0) 79 23 = Cplx 1 1"
  "grid_point (binary64 ub) (Cplx 0 0) (Cplx 80 24) 0 0 = Cplx 0 0"
  by (simp_all add: grid_point_def cadd_def binary64_ops b64_vals)

text \<open>
  Claim C6, amended. In every arithmetic, every cell \<open>(i, j)\<close> of the render with the
  corners swapped shows the predicate at the point computed from \<open>B\<close> with the scale
  factors of \<open>A - B\<close>; in exact arithmetic this is
  \<open>B + (i * (A.re - B.re) / 80, j * (A.im - B.im) / 24)\<close>. In exact arithmetic, for
  \<open>1 \<le> k \<le> 79\<close> and \<open>1 \<le> l \<le> 23\<close>, the point of cell \<open>(k, l)\<close> is the sample point
  of cell \<open>(80 - k, 24 - l)\<close> of the original render, so the character there is the same:
  the picture is reflected and shifted by one cell. Column 0 of the swapped render has
  the real part of \<open>B\<close> and row 0 its imaginary part; on an axis where \<open>B\<close> differs from
  \<open>A\<close>, no sample of the original render has that coordinate.
\<close>

theorem swap_shifted_mirror:
  assumes "i < 80" and "j < 24" and "0 < k" and "k < 80" and "0 < l" and "l < 24"
  shows "char_at (snd (render ar (pure_fn q) b a (t, []))) i j =
           cell_char (q (grid_point ar b a i j)) \<and>
         grid_point (exact ub) b a i j =
           Cplx (creal b + real i * (creal a - creal b) / 80)
                (cimag b + real j * (cimag a - cimag b) / 24) \<and>
         grid_point (exact ub) b a k l = grid_point (exact ub) a b (80 - k) (24 - l) \<and>
         char_at (snd (render (exact ub) (pure_fn p) b a (s, []))) k l =
           char_at (snd (render (exact ub) (pure_fn p) a b (s, []))) (80 - k) (24 - l) \<and>
         creal (grid_point (exact ub) b a 0 j) = creal b \<and>
         cimag (grid_point (exact ub) b a i 0) = cimag b \<and>
         (creal a \<noteq> creal b \<longrightarrow> creal (grid_point (exact ub) a b i j) \<noteq> creal b) \<and>
         (cimag a \<noteq> cimag b \<longrightarrow> cimag (grid_point (exact ub) a b i j) \<noteq> cimag b)"
proof -
  have cell: "char_at (snd (render ar (pure_fn q) b a (t, []))) i j =
      cell_char (q (grid_point ar b a i j))"
    using assms(1,2) by (rule render_char)
  have pair: "grid_point (exact ub) b a k l = grid_point (exact ub) a b (80 - k) (24 - l)"
    using assms(3-6) by (rule grid_point_swapped)
  have chars: "char_at (snd (render (exact ub) (pure_fn p) b a (s, []))) k l =
      char_at (snd (render (exact ub) (pure_fn p) a b (s, []))) (80 - k) (24 - l)"
    using assms(3-6) by (simp add: render_char pair)
  have short: "(creal a \<noteq> creal b \<longrightarrow> creal (grid_point (exact ub) a b i j) \<noteq> creal b) \<and>
      (cimag a \<noteq> cimag b \<longrightarrow> cimag (grid_point (exact ub) a b i j) \<noteq> cimag b)"
    using grid_point_short [OF assms(1,2), of a b ub] by auto
  show ?thesis
    using cell pair chars short grid_point_far_lines [of ub b a]
    by (simp add: grid_point_exact)
qed

theorem swap_shifted_mirror_witness:
  "(0::nat) < 80 \<and> (0::nat) < 24 \<and> (0::nat) < 79 \<and> (79::nat) < 80 \<and> (0::nat) < 1 \<and> (1::nat) < 24 \<and>
   char_at (snd (render (exact indefinite) (pure_fn (left_of 2)) (Cplx 80 24) (Cplx 0 0) ((), []))) 79 1 =
     char_at (snd (render (exact indefinite) (pure_fn (left_of 2)) (Cplx 0 0) (Cplx 80 24) ((), []))) 1 23 \<and>
   char_at (snd (render (exact indefinite) (pure_fn (left_of 2)) (Cplx 0 0) (Cplx 80 24) ((), []))) 1 23 =
     CHR ''#'' \<and>
   char_at (snd (render (exact indefinite) (pure_fn (left_of 2)) (Cplx 0 0) (Cplx 80 24) ((), []))) 2 23 =
     CHR '' '' \<and>
   char_at (snd (render (exact indefinite) (pure_fn (left_of 2)) (Cplx 80 24) (Cplx 0 0) ((), []))) 0 0 =
     cell_char (left_of 2 (grid_point (exact indefinite) (Cplx 80 24) (Cplx 0 0) 0 0)) \<and>
   creal (grid_point (exact indefinite) (Cplx 0 0) (Cplx 80 24) 0 0) \<noteq> creal (Cplx 80 (24::real))"
proof -
  have h: "(0::nat) < 80" "(0::nat) < 24" "(0::nat) < 79" "(79::nat) < 80" "(0::nat) < 1"
    "(1::nat) < 24"
    by simp_all
  note m = swap_shifted_mirror [OF h, where ub = indefinite and p = "left_of 2"
      and b = "Cplx 80 24" and a = "Cplx 0 0" and s = "()" and ar = "exact indefinite"
      and q = "left_of 2" and t = "()"]
  have sharp: "char_at (snd (render (exact indefinite) (pure_fn (left_of 2)) (Cplx 0 0) (Cplx 80 24)
      ((), []))) 1 23 = CHR ''#''"
    and blank: "char_at (snd (render (exact indefinite) (pure_fn (left_of 2)) (Cplx 0 0) (Cplx 80 24)
      ((), []))) 2 23 = CHR '' ''"
    by (simp_all add: render_char grid_point_exact left_of_def cell_char_def)
  from m [THEN conjunct1] m [THEN conjunct2, THEN conjunct2, THEN conjunct2, THEN conjunct1]
    m [THEN conjunct2, THEN conjunct2, THEN conjunct2, THEN conjunct2, THEN conjunct2,
      THEN conjunct2, THEN conjunct1]
    h sharp blank
  show ?thesis
    by simp
qed

text \<open>
  The claim as stated pairs cell \<open>(i, j)\<close> with cell \<open>(79 - i, 23 - j)\<close>. For the corners
  \<open>0\<close> and \<open>80 + 24i\<close> every step is 1 and every sample is an integer point, in exact
  arithmetic and in binary64; cell \<open>(79, 23)\<close> of the swapped render samples \<open>1 + i\<close>,
  cell \<open>(0, 0)\<close> of the original samples \<open>0\<close>, and \<open>left_half\<close> tells them apart. The
  pairing with cell \<open>(80 - i, 24 - j)\<close> holds in exact arithmetic only: for the corners
  \<open>0\<close> and \<open>1 + 24i\<close> the real parts of swapped cell \<open>(2, 1)\<close> and of original cell
  \<open>(78, 23)\<close>, both \<open>39/40\<close> exactly, are on the machine the two doubles on either
  side of \<open>39/40\<close>, and the predicate \<open>re < above_39_40\<close>, which compares with the upper
  one, tells them apart.
\<close>

theorem swap_mirror_counterexample:
  "char_at (snd (render (exact indefinite) (pure_fn left_half) (Cplx 80 24) (Cplx 0 0) ((), []))) 79 23
     = CHR '' '' \<and>
   char_at (snd (render (exact indefinite) (pure_fn left_half) (Cplx 0 0) (Cplx 80 24) ((), [])))
     (80 - 1 - 79) (24 - 1 - 23) = CHR ''#'' \<and>
   char_at (snd (render (binary64 indefinite) (pure_fn left_half) (Cplx 80 24) (Cplx 0 0) ((), []))) 79 23
     = CHR '' '' \<and>
   char_at (snd (render (binary64 indefinite) (pure_fn left_half) (Cplx 0 0) (Cplx 80 24) ((), [])))
     (80 - 1 - 79) (24 - 1 - 23) = CHR ''#'' \<and>
   char_at (snd (render (binary64 indefinite) (pure_fn (left_of above_39_40)) (Cplx 1 24) (Cplx 0 0)
     ((), []))) 2 1 = CHR ''#'' \<and>
   char_at (snd (render (binary64 indefinite) (pure_fn (left_of above_39_40)) (Cplx 0 0) (Cplx 1 24)
     ((), []))) (80 - 2) (24 - 1) = CHR '' '' \<and>
   char_at (snd (render (exact indefinite) (pure_fn (left_of above_39_40)) (Cplx 1 24) (Cplx 0 0)
     ((), []))) 2 1 = CHR ''#'' \<and>
   char_at (snd (render (exact indefinite) (pure_fn (left_of above_39_40)) (Cplx 0 0) (Cplx 1 24)
     ((), []))) (80 - 2) (24 - 1) = CHR ''#'' \<and>
   rnd53 above_39_40 = above_39_40"
  using grid_point_rounded_binary64 [of indefinite]
  by (simp add: render_char grid_point_exact grid_point_swap_binary64 left_half_def left_of_def
      above_39_40_def cell_char_def b64_vals)

lemma grid_point_same:
  "grid_point (exact ub) a a i j = a"
  by (cases a) (simp add: grid_point_exact)

lemma concat_replicate_const:
  "concat (replicate n (replicate m x)) = replicate (n * m) x"
  by (induction n) (simp_all add: replicate_add)

lemma grid_point_same_binary64:
  "rnd53 (creal a) = creal a \<Longrightarrow> rnd53 (cimag a) = cimag a \<Longrightarrow>
     grid_point (binary64 ub) a a i j = a"
  by (cases a) (simp add: grid_point_def cadd_def binary64_ops)

text \<open>
  Claim C8. With equal corners both scale factors are 0, every one of the 80 * 24
  sample points is the corner, and the output is 24 identical lines of 80 identical
  characters: \<open>#\<close> if the predicate holds at the corner, a space otherwise. This holds
  in exact arithmetic for every corner \<open>a\<close>, and in binary64 for every corner \<open>c\<close>
  whose coordinates are doubles. The only divisors are \<^verbatim>\<open>width\<close> and \<^verbatim>\<open>height\<close>,
  which are not zero.
\<close>

theorem equal_corners:
  assumes "rnd53 (creal c) = creal c" and "rnd53 (cimag c) = cimag c"
  shows "render (exact ub) (pure_fn p) a a (s, []) =
           (s, concat (replicate 24 (replicate 80 (cell_char (p a)) @ [newline]))) \<and>
         fst (render (exact ub) (logged p) a a ([], [])) = replicate (80 * 24) a \<and>
         fdiv (exact ub) (fsub (exact ub) (creal a) (creal a)) (of_int32 (exact ub) width) = 0 \<and>
         fdiv (exact ub) (fsub (exact ub) (cimag a) (cimag a)) (of_int32 (exact ub) height) = 0 \<and>
         of_int32 (exact ub) width \<noteq> 0 \<and> of_int32 (exact ub) height \<noteq> 0 \<and>
         render (binary64 ub) (pure_fn p) c c (s, []) =
           (s, concat (replicate 24 (replicate 80 (cell_char (p c)) @ [newline]))) \<and>
         fst (render (binary64 ub) (logged p) c c ([], [])) = replicate (80 * 24) c \<and>
         fdiv (binary64 ub) (fsub (binary64 ub) (creal c) (creal c)) (of_int32 (binary64 ub) width) = 0 \<and>
         fdiv (binary64 ub) (fsub (binary64 ub) (cimag c) (cimag c)) (of_int32 (binary64 ub) height) = 0 \<and>
         of_int32 (binary64 ub) width \<noteq> 0 \<and> of_int32 (binary64 ub) height \<noteq> 0"
proof -
  have flat: "concat (map (\<lambda>j. replicate 80 z) [0..<24]) = replicate (80 * 24) z"
    for z :: "real complexd"
    using concat_replicate_const [of 24 80 z] by (simp add: map_replicate_const)
  have "render (exact ub) (pure_fn p) a a (s, []) =
      (s, concat (replicate 24 (replicate 80 (cell_char (p a)) @ [newline])))"
    and "fst (render (exact ub) (logged p) a a ([], [])) = replicate (80 * 24) a"
    using flat [of a]
    by (simp_all add: render_pure render_logged grid_point_same map_replicate_const)
  moreover have "render (binary64 ub) (pure_fn p) c c (s, []) =
      (s, concat (replicate 24 (replicate 80 (cell_char (p c)) @ [newline])))"
    and "fst (render (binary64 ub) (logged p) c c ([], [])) = replicate (80 * 24) c"
    using flat [of c]
    by (simp_all add: render_pure render_logged grid_point_same_binary64 [OF assms]
        map_replicate_const)
  moreover have "fdiv (exact ub) (fsub (exact ub) x x) (of_int32 (exact ub) k) = 0"
    and "fdiv (binary64 ub) (fsub (binary64 ub) x x) (of_int32 (binary64 ub) k) = 0" for x k
    by (simp_all add: exact_def binary64_ops)
  moreover have "of_int32 (exact ub) width \<noteq> 0 \<and> of_int32 (exact ub) height \<noteq> 0 \<and>
      of_int32 (binary64 ub) width \<noteq> 0 \<and> of_int32 (binary64 ub) height \<noteq> 0"
    by (simp add: exact_def binary64_ops width_def height_def)
  ultimately show ?thesis
    by simp
qed

theorem equal_corners_witness:
  "rnd53 (creal (Cplx 1 (2::real))) = creal (Cplx 1 (2::real)) \<and>
   rnd53 (cimag (Cplx 1 (2::real))) = cimag (Cplx 1 (2::real)) \<and>
   render (binary64 indefinite) (pure_fn left_half) (Cplx 1 2) (Cplx 1 2) ((), []) =
     ((), concat (replicate 24 (replicate 80 (CHR '' '') @ [newline]))) \<and>
   fst (render (binary64 indefinite) (logged left_half) (Cplx 1 2) (Cplx 1 2) ([], [])) =
     replicate (80 * 24) (Cplx 1 2)"
proof -
  have h: "rnd53 (creal (Cplx 1 (2::real))) = creal (Cplx 1 (2::real))"
    "rnd53 (cimag (Cplx 1 (2::real))) = cimag (Cplx 1 (2::real))"
    by (simp_all add: b64_vals)
  note t = equal_corners [OF h, where ub = indefinite and p = left_half and a = "Cplx 1 2"
      and s = "()"]
  from t h show ?thesis
    by (simp add: left_half_def cell_char_def)
qed

section \<open>The last sample and the far corner\<close>











end
